theory Spec2Isabelle
  imports Main "HOL-Library.Word"
begin

section \<open>Errors and dynamic values\<close>

text \<open>
  A value of type \<^verbatim>\<open>interface{}\<close> as the YAML decoder of the compose file yields it.
  \<open>VOther\<close> stands for every dynamic type the program never switches on (float64,
  int64, ...), tagged with the name of the type.
\<close>

datatype iface =
    VNil
  | VInt int
  | VString string
  | VBool bool
  | VList "iface list"
  | VMap "(iface \<times> iface) list"
  | VOther string

text \<open>
  A Go \<^verbatim>\<open>error\<close> is a value. The constructors name the places of
  \<^verbatim>\<open>internal/components/setup\<close> that build one: \<^verbatim>\<open>fmt.Errorf\<close> with a
  constant message, \<^verbatim>\<open>fmt.Errorf\<close> that prints another error or a value
  behind a prefix, the \<^verbatim>\<open>*strconv.NumError\<close> of \<^verbatim>\<open>strconv.Atoi\<close>, and an
  error handed back by an external API (the docker client, the kubernetes client, the
  operating system). A failed type assertion without the comma-ok form panics; the panic
  is a value too.
\<close>

datatype num_err = ErrSyntax | ErrRange

datatype error =
    Errorf string
  | ErrorfWrap string error
  | ErrorfValue string iface
  | NumError string num_err
  | ApiError string
  | Panic string

section \<open>Strings: the library functions the program calls\<close>

text \<open>
  \<^verbatim>\<open>strings.Split(s, sep)\<close> for a separator of one byte (the program splits at
  \<^verbatim>\<open>":"\<close> and at \<^verbatim>\<open>","\<close>): the segments between the separators, in order;
  a string without separator is its only segment.
\<close>

fun Split :: "string \<Rightarrow> char \<Rightarrow> string list" where
  "Split [] sep = [[]]"
| "Split (c # cs) sep =
     (if c = sep then [] # Split cs sep
      else (case Split cs sep of
              [] \<Rightarrow> [[c]]
            | w # ws \<Rightarrow> (c # w) # ws))"

text \<open>\<^verbatim>\<open>strings.Contains(s, sub)\<close> for a substring of one byte.\<close>

definition Contains :: "string \<Rightarrow> char \<Rightarrow> bool" where
  "Contains s c = (c \<in> set s)"

text \<open>
  \<^verbatim>\<open>strings.ReplaceAll(s, old, new)\<close> for \<^verbatim>\<open>old\<close> and \<^verbatim>\<open>new\<close> of one
  byte each, as \<^verbatim>\<open>exposePerKindService\<close> calls it.
\<close>

fun ReplaceAll :: "string \<Rightarrow> char \<Rightarrow> char \<Rightarrow> string" where
  "ReplaceAll [] old new = []"
| "ReplaceAll (c # cs) old new = (if c = old then new else c) # ReplaceAll cs old new"

subsection \<open>Decimal numerals: \<^verbatim>\<open>strconv.Atoi\<close> and \<^verbatim>\<open>strconv.Itoa\<close>\<close>

definition is_digit :: "char \<Rightarrow> bool" where
  "is_digit c = (48 \<le> (of_char c :: nat) \<and> (of_char c :: nat) \<le> 57)"

definition digit_val :: "char \<Rightarrow> nat" where
  "digit_val c = of_char c - 48"

definition digit_char :: "nat \<Rightarrow> char" where
  "digit_char d = char_of (48 + d)"

text \<open>
  The loop of \<^verbatim>\<open>strconv.ParseUint(s, 10, bitSize)\<close>, with the value read so far: a
  byte that is no digit is a syntax error; a value that leaves \<open>bitSize\<close> bits is a
  range error, reported where it happens.
\<close>

fun parseUint :: "nat \<Rightarrow> nat \<Rightarrow> string \<Rightarrow> num_err + nat" where
  "parseUint bitSize n [] = Inr n"
| "parseUint bitSize n (c # cs) =
     (if \<not> is_digit c then Inl ErrSyntax
      else if 2 ^ bitSize \<le> n * 10 + digit_val c then Inl ErrRange
      else parseUint bitSize (n * 10 + digit_val c) cs)"

text \<open>
  \<^verbatim>\<open>strconv.ParseInt(s, 10, bitSize)\<close> for a \<open>bitSize\<close> that is not zero: an
  optional sign, then at least one decimal digit and nothing else; the value must fit
  \<open>bitSize\<close> bits with a sign. \<^verbatim>\<open>strconv.Atoi\<close> gives the same results as
  \<^verbatim>\<open>ParseInt(s, 10, 64)\<close> on a platform whose \<^verbatim>\<open>int\<close> has 64 bits.
\<close>

definition ParseInt :: "string \<Rightarrow> nat \<Rightarrow> error + int" where
  "ParseInt s bitSize =
     (let neg = (s \<noteq> [] \<and> hd s = CHR ''-'');
          ds = (if s \<noteq> [] \<and> (hd s = CHR ''-'' \<or> hd s = CHR ''+'') then tl s else s)
      in if ds = [] then Inl (NumError s ErrSyntax)
         else (case parseUint bitSize 0 ds of
                 Inl e \<Rightarrow> Inl (NumError s e)
               | Inr n \<Rightarrow>
                   if \<not> neg \<and> 2 ^ (bitSize - 1) \<le> n then Inl (NumError s ErrRange)
                   else if neg \<and> 2 ^ (bitSize - 1) < n then Inl (NumError s ErrRange)
                   else Inr (if neg then - int n else int n)))"

definition Atoi :: "string \<Rightarrow> error + int" where
  "Atoi s = ParseInt s 64"

fun digits :: "nat \<Rightarrow> string" where
  "digits n = (if n < 10 then [digit_char n] else digits (n div 10) @ [digit_char (n mod 10)])"

declare digits.simps [simp del]

text \<open>\<^verbatim>\<open>strconv.Itoa\<close>, which is also what \<^verbatim>\<open>%d\<close> prints.\<close>

definition Itoa :: "int \<Rightarrow> string" where
  "Itoa i = (if i < 0 then CHR ''-'' # digits (nat (- i)) else digits (nat i))"

text \<open>\<^verbatim>\<open>%04x\<close>: lower-case hexadecimal, padded with zeros to four places.\<close>

definition hex_char :: "nat \<Rightarrow> char" where
  "hex_char d = (if d < 10 then char_of (48 + d) else char_of (87 + d))"

fun hex_digits :: "nat \<Rightarrow> string" where
  "hex_digits n = (if n < 16 then [hex_char n] else hex_digits (n div 16) @ [hex_char (n mod 16)])"

declare hex_digits.simps [simp del]

definition hex04 :: "nat \<Rightarrow> string" where
  "hex04 n = replicate (4 - length (hex_digits n)) CHR ''0'' @ hex_digits n"

subsection \<open>Regular expressions: \<^verbatim>\<open>regexp.MatchString\<close>\<close>

text \<open>
  The fragment of the syntax of the \<^verbatim>\<open>regexp\<close> package that the program uses:
  a literal byte, \<^verbatim>\<open>.\<close> (anything but a newline), a range \<^verbatim>\<open>[a-b]\<close> of
  bytes, concatenation, \<^verbatim>\<open>*\<close> and \<^verbatim>\<open>+\<close>. Strings are bytes here, and a
  character of several bytes, none of which is a newline, takes as many \<^verbatim>\<open>.\<close>.
  \<open>rmatch r s\<close> says that \<open>r\<close> matches the whole of \<open>s\<close>;
  \<^verbatim>\<open>regexp.MatchString\<close> is not anchored, it looks for a substring that matches.
\<close>

datatype regex =
    Lit char
  | AnyNotNL
  | CharRange char char
  | Concat regex regex
  | Star regex

definition Plus :: "regex \<Rightarrow> regex" where
  "Plus r = Concat r (Star r)"

function rmatch :: "regex \<Rightarrow> string \<Rightarrow> bool" where
  "rmatch (Lit c) s = (s = [c])"
| "rmatch AnyNotNL s = (length s = 1 \<and> hd s \<noteq> CHR 0x0A)"
| "rmatch (CharRange a b) s =
     (length s = 1 \<and> (of_char a :: nat) \<le> of_char (hd s) \<and> (of_char (hd s) :: nat) \<le> of_char b)"
| "rmatch (Concat r1 r2) s =
     (\<exists>i \<in> set [0..<Suc (length s)]. rmatch r1 (take i s) \<and> rmatch r2 (drop i s))"
| "rmatch (Star r) s =
     (s = [] \<or> (\<exists>i \<in> set [1..<Suc (length s)]. rmatch r (take i s) \<and> rmatch (Star r) (drop i s)))"
  by pat_completeness auto
termination
  by (relation "measures [\<lambda>(r, s). size r, \<lambda>(r, s). length s]") auto

declare rmatch.simps [simp del]

definition MatchString :: "regex \<Rightarrow> string \<Rightarrow> bool" where
  "MatchString r s =
     (\<exists>i \<in> set [0..<Suc (length s)]. \<exists>j \<in> set [0..<Suc (length s - i)].
        rmatch r (take j (drop i s)))"

section \<open>The compose backend (compose.go)\<close>

subsection \<open>Pure helpers\<close>

text \<open>
  \<^verbatim>\<open>getExpectPort\<close>: a type switch on the declared port. An \<^verbatim>\<open>int\<close> is
  returned as it is; a string is split at \<^verbatim>\<open>":"\<close> and its second segment, or its
  only one, goes to \<^verbatim>\<open>strconv.Atoi\<close>, whose result is returned unchanged; every
  other type ends in \<^verbatim>\<open>unknown port information\<close>.
\<close>

fun getExpectPort :: "iface \<Rightarrow> error + int" where
  "getExpectPort (VInt conf) = Inr conf"
| "getExpectPort (VString conf) =
     (case Split conf CHR '':'' of
        p0 # p1 # rest \<Rightarrow> Atoi p1
      | [p0] \<Rightarrow> Atoi p0
      | [] \<Rightarrow> Inl (Panic ''index out of range''))"
| "getExpectPort portConfig = Inl (ErrorfValue ''unknown port information: '' portConfig)"

text \<open>
  \<^verbatim>\<open>getInstanceName\<close>: the pattern \<^verbatim>\<open>.*_[0-9]+\<close> is a constant that compiles,
  so the branch for an error of \<^verbatim>\<open>regexp.MatchString\<close> is never taken.
\<close>

definition instancePattern :: regex where
  "instancePattern =
     Concat (Star AnyNotNL) (Concat (Lit CHR ''_'') (Plus (CharRange CHR ''0'' CHR ''9'')))"

definition getInstanceName :: "string \<Rightarrow> string" where
  "getInstanceName serviceName =
     (if \<not> MatchString instancePattern serviceName then serviceName @ ''_1''
      else serviceName)"

text \<open>\<^verbatim>\<open>buildInternalCheckCommand\<close>, for the port of a container (16 bits, not negative).\<close>

definition buildInternalCheckCommand :: "int \<Rightarrow> string" where
  "buildInternalCheckCommand internalPort =
     ''true && '' @ ''('' @ ''\<newline>'' @
     replicate 5 (CHR 0x09) @ ''cat /proc/net/tcp* | awk '' @ [CHR 0x27] @ ''{print $2}'' @ [CHR 0x27] @
       '' | grep -i :'' @ hex04 (nat internalPort) @ '' ||'' @ ''\<newline>'' @
     replicate 5 (CHR 0x09) @ ''nc -vz -w 1 localhost '' @ Itoa internalPort @ '' ||'' @ ''\<newline>'' @
     replicate 5 (CHR 0x09) @ ''/bin/sh -c '' @ [CHR 0x27] @ ''</dev/tcp/localhost/'' @ Itoa internalPort @
       [CHR 0x27] @ ''\<newline>'' @
     replicate 4 (CHR 0x09) @ '')'' @ ''\<newline>'' @
     replicate 4 (CHR 0x09)"

subsection \<open>Data of the docker API and of the configuration\<close>

text \<open>
  The fields the program reads, under the names they have in the docker types
  (\<^verbatim>\<open>types.Port\<close>, \<^verbatim>\<open>types.Container\<close>, \<^verbatim>\<open>nat.PortBinding\<close>,
  \<^verbatim>\<open>types.ContainerJSON\<close>, \<^verbatim>\<open>network.IPAMConfig\<close>,
  \<^verbatim>\<open>types.NetworkResource\<close>) and in \<^verbatim>\<open>config.E2EConfig\<close>.
\<close>

record types_Port =
  PrivatePort :: "16 word"
  PublicPort :: "16 word"

record Container =
  ID :: string
  Ports :: "types_Port list"

record PortBinding =
  HostIP :: string
  HostPort :: string

record ContainerJSON =
  NetworkMode :: string
  NetworkSettingsPorts :: "(string \<times> PortBinding list) list"

record IPAMConfig =
  Gateway :: string

record NetworkResource =
  Name :: string
  IPAMConfigs :: "IPAMConfig list"

text \<open>A step of the verification is opaque; \<^verbatim>\<open>RunStepsAndWait\<close> runs it.\<close>

datatype Step = Step string

text \<open>
  \<^verbatim>\<open>config.Wait\<close> and \<^verbatim>\<open>config.KindExposePort\<close>. Both have a field
  \<^verbatim>\<open>Namespace\<close> and a field \<^verbatim>\<open>Resource\<close>; the theory writes them with the name
  of the record in front.
\<close>

record Wait =
  Namespace :: string
  Resource :: string
  For :: string
  LabelSelector :: string

record KindExposePort =
  Namespace :: string
  Resource :: string
  Port :: string

text \<open>
  \<^verbatim>\<open>e2eConfig.Setup\<close>. \<open>File\<close> is what \<^verbatim>\<open>Setup.GetFile()\<close> returns;
  \<open>Steps\<close> is \<open>None\<close> for a nil slice; \<open>ImportImages\<close> and \<open>ExposePorts\<close>
  are the two fields of \<^verbatim>\<open>Setup.Kind\<close>.
\<close>

record Setup =
  File :: string
  Timeout :: int
  Steps :: "Step list option"
  InitSystemEnvironment :: string
  ImportImages :: "string list"
  ExposePorts :: "KindExposePort list"

text \<open>
  The flags \<^verbatim>\<open>getWaitOptions\<close> sets on \<^verbatim>\<open>ctlwait.WaitFlags\<close>:
  \<^verbatim>\<open>Timeout\<close>, \<^verbatim>\<open>ForCondition\<close>, and of the \<^verbatim>\<open>ResourceBuilderFlags\<close>
  the label selector and \<^verbatim>\<open>All\<close> (\<open>None\<close> for a pointer left nil).
\<close>

record waitFlags =
  WaitTimeout :: "64 word"
  ForCondition :: string
  FlagLabelSelector :: "string option"
  FlagAll :: "bool option"

subsection \<open>The outside world\<close>

text \<open>
  Every operation that leaves the process is a \<open>call\<close>. A run is the list of the calls
  made so far, oldest first. The world answers a call as a function of the run up to and
  including that call, so its answers may depend on everything the program did before and
  on nothing else: the world is any deterministic environment. A function of the program
  takes the run and returns it extended; a function that may loop forever has an
  \<open>option\<close> around its result, and \<open>None\<close> says that it never returns.
\<close>

datatype call =
    NewClientWithOpts
  | Stat string
  | NewLocalDockerCompose "string list" string
  | NetworkList
  | NetworkCreate string
  | NetworkInspect string
  | ComposeInvoke "string list"
  | ContainerList string
  | ContainerInspect string
  | ContainerExecCreate string "string list"
  | ContainerExecStart string
  | ContainerExecInspect string
  | DialContext string
  | ConnClose string
  | Sleep nat
  | Setenv string string
  | RunStepsAndWait "Step list option" int bool
  | ExportEnvVars string
  | KindRun "string list"
  | ExpandEnv string
  | ConnectToK8sCluster string
  | OpenDevNull
  | ToOptions waitFlags "string list"
  | ReadFile string
  | ToRESTConfig
  | RoundTripperFor
  | RESTClientFor
  | BuilderDoObject string string
  | AttachablePodForObject "64 word"
  | PortforwardNew "string list"
  | GoForwardPorts
  | GetPorts
  | CancelFunc

text \<open>
  The answers of the docker daemon and of the operating system, and the values of other
  packages that compose.go reads: \<^verbatim>\<open>GetIdentity()\<close>, the services of the parsed
  compose file (\<^verbatim>\<open>compose.Services\<close> after \<^verbatim>\<open>NewLocalDockerCompose\<close>, in the
  order in which the \<^verbatim>\<open>range\<close> over the map visits them) and
  \<^verbatim>\<open>constant.DefaultWaitTimeout\<close>. \<open>NewPort\<close>
  is \<^verbatim>\<open>nat.NewPort\<close>. \<open>Sleep\<close> counts milliseconds.
\<close>

record world =
  GetIdentity :: string
  Services :: "(string \<times> iface) list"
  DefaultWaitTimeout :: "64 word"
  NewPort :: "string \<Rightarrow> string \<Rightarrow> string \<times> error option"
  onNewClientWithOpts :: "call list \<Rightarrow> error option"
  onStat :: "call list \<Rightarrow> error option"
  onNetworkList :: "call list \<Rightarrow> error + NetworkResource list"
  onNetworkCreate :: "call list \<Rightarrow> error option"
  onNetworkInspect :: "call list \<Rightarrow> error + NetworkResource"
  onComposeInvoke :: "call list \<Rightarrow> error option"
  onContainerList :: "call list \<Rightarrow> error + Container list"
  onContainerInspect :: "call list \<Rightarrow> error + ContainerJSON"
  onContainerExecCreate :: "call list \<Rightarrow> error + string"
  onContainerExecStart :: "call list \<Rightarrow> error option"
  onContainerExecInspect :: "call list \<Rightarrow> error + bool \<times> int"
  onDialContext :: "call list \<Rightarrow> error option"
  onSetenv :: "call list \<Rightarrow> error option"
  onRunStepsAndWait :: "call list \<Rightarrow> error option"

subsection \<open>Network discovery\<close>

text \<open>\<^verbatim>\<open>testcontainers.ReaperDefault\<close>.\<close>

definition ReaperDefault :: string where
  "ReaperDefault = ''reaper_default''"

text \<open>
  The loop of \<^verbatim>\<open>getDefaultNetwork\<close> over the listed networks: \<open>None\<close> when it
  returns \<^verbatim>\<open>"bridge"\<close> from inside, otherwise the final value of
  \<^verbatim>\<open>reaperNetworkExists\<close>.
\<close>

fun networkLoop :: "NetworkResource list \<Rightarrow> bool \<Rightarrow> bool option" where
  "networkLoop [] reaperNetworkExists = Some reaperNetworkExists"
| "networkLoop (net # rest) reaperNetworkExists =
     (if Name net = ''bridge'' then None
      else networkLoop rest (if Name net = ReaperDefault then True else reaperNetworkExists))"

definition getDefaultNetwork :: "world \<Rightarrow> call list \<Rightarrow> (error + string) \<times> call list" where
  "getDefaultNetwork w tr =
     (let tr1 = tr @ [NetworkList] in
      case onNetworkList w tr1 of
        Inl err \<Rightarrow> (Inl err, tr1)
      | Inr networkResources \<Rightarrow>
          (case networkLoop networkResources False of
             None \<Rightarrow> (Inr ''bridge'', tr1)
           | Some reaperNetworkExists \<Rightarrow>
               if \<not> reaperNetworkExists then
                 (let tr2 = tr1 @ [NetworkCreate ReaperDefault] in
                  case onNetworkCreate w tr2 of
                    Some err \<Rightarrow> (Inl err, tr2)
                  | None \<Rightarrow> (Inr ReaperDefault, tr2))
               else (Inr ReaperDefault, tr1)))"

text \<open>
  A Go function that returns \<^verbatim>\<open>(string, error)\<close> returns the empty string beside
  every error here; \<open>valueOf\<close> is the string a caller holds when it ignores the error.
\<close>

definition valueOf :: "error + string \<Rightarrow> string" where
  "valueOf r = (case r of Inl err \<Rightarrow> [] | Inr v \<Rightarrow> v)"

definition GetNetwork ::
  "world \<Rightarrow> string \<Rightarrow> call list \<Rightarrow> (error + NetworkResource) \<times> call list" where
  "GetNetwork w name tr = (let tr1 = tr @ [NetworkInspect name] in (onNetworkInspect w tr1, tr1))"

text \<open>The loop of \<^verbatim>\<open>getGatewayIP\<close>: the first gateway that is not empty, or \<^verbatim>\<open>""\<close>.\<close>

fun gatewayLoop :: "IPAMConfig list \<Rightarrow> string" where
  "gatewayLoop [] = []"
| "gatewayLoop (config # rest) = (if Gateway config \<noteq> [] then Gateway config else gatewayLoop rest)"

text \<open>
  \<^verbatim>\<open>getGatewayIP\<close> assigns the error of \<^verbatim>\<open>getDefaultNetwork\<close> to \<^verbatim>\<open>err\<close>
  and overwrites it in the next statement, so it inspects the network named \<^verbatim>\<open>""\<close>
  when the discovery failed.
\<close>

definition getGatewayIP :: "world \<Rightarrow> call list \<Rightarrow> (error + string) \<times> call list" where
  "getGatewayIP w tr =
     (case getDefaultNetwork w tr of
        (network, tr1) \<Rightarrow>
          (case GetNetwork w (valueOf network) tr1 of
             (Inl err, tr2) \<Rightarrow> (Inl err, tr2)
           | (Inr nw, tr2) \<Rightarrow>
               (let ip = gatewayLoop (IPAMConfigs nw) in
                if ip = [] then (Inl (Errorf ''Failed to get gateway IP from network settings''), tr2)
                else (Inr ip, tr2))))"

subsection \<open>Planning the ports to wait for\<close>

text \<open>
  \<^verbatim>\<open>hostPortCachedStrategy\<close>: the expected container port, and the startup timeout
  that \<^verbatim>\<open>bindWaitPort\<close> gives the embedded \<^verbatim>\<open>wait.HostPortStrategy\<close>
  (a \<^verbatim>\<open>time.Duration\<close>: nanoseconds in 64 bits).
\<close>

record hostPortCachedStrategy =
  expectPort :: int
  startupTimeout :: "64 word"

definition waitTimeoutOf :: "world \<Rightarrow> int \<Rightarrow> 64 word" where
  "waitTimeoutOf w timeout =
     (if timeout \<le> 0 then DefaultWaitTimeout w else word_of_int timeout * 1000000000)"

text \<open>The inner loop of \<^verbatim>\<open>bindWaitPort\<close>, over the ports of one service.\<close>

fun bindPortList :: "64 word \<Rightarrow> iface list \<Rightarrow> error + hostPortCachedStrategy list" where
  "bindPortList waitTimeout [] = Inr []"
| "bindPortList waitTimeout (p # portList) =
     (case getExpectPort p of
        Inl err \<Rightarrow> Inl err
      | Inr exportPort \<Rightarrow>
          (case bindPortList waitTimeout portList of
             Inl err \<Rightarrow> Inl err
           | Inr strategies \<Rightarrow>
               Inr (\<lparr>expectPort = exportPort, startupTimeout = waitTimeout\<rparr> # strategies)))"

text \<open>
  The outer loop: a service whose content is no map, and a \<^verbatim>\<open>ports\<close> entry that is
  no list, fail the type assertion; a service without \<^verbatim>\<open>ports\<close> is left out of
  the result.
\<close>

fun bindServices ::
  "64 word \<Rightarrow> (string \<times> iface) list \<Rightarrow> error + (string \<times> hostPortCachedStrategy list) list" where
  "bindServices waitTimeout [] = Inr []"
| "bindServices waitTimeout ((service, content) # rest) =
     (case content of
        VMap serviceConfig \<Rightarrow>
          (case map_of serviceConfig (VString ''ports'') of
             None \<Rightarrow> bindServices waitTimeout rest
           | Some VNil \<Rightarrow> bindServices waitTimeout rest
           | Some (VList portList) \<Rightarrow>
               (case bindPortList waitTimeout portList of
                  Inl err \<Rightarrow> Inl err
                | Inr strategies \<Rightarrow>
                    (case bindServices waitTimeout rest of
                       Inl err \<Rightarrow> Inl err
                     | Inr serviceWithPorts \<Rightarrow> Inr ((service, strategies) # serviceWithPorts)))
           | Some other \<Rightarrow> Inl (Panic ''interface conversion''))
      | other \<Rightarrow> Inl (Panic ''interface conversion''))"

definition bindWaitPort ::
  "world \<Rightarrow> Setup \<Rightarrow> error + (string \<times> hostPortCachedStrategy list) list" where
  "bindWaitPort w setup = bindServices (waitTimeoutOf w (Timeout setup)) (Services w)"

subsection \<open>Containers and their ports\<close>

definition findContainer ::
  "world \<Rightarrow> string \<Rightarrow> call list \<Rightarrow> (error + Container) \<times> call list" where
  "findContainer w instanceName tr =
     (let tr1 = tr @ [ContainerList instanceName] in
      case onContainerList w tr1 of
        Inl err \<Rightarrow> (Inl err, tr1)
      | Inr [] \<Rightarrow> (Inl (Errorf (''could not found container: '' @ instanceName)), tr1)
      | Inr (c # containers) \<Rightarrow> (Inr c, tr1))"

definition exportComposeEnv ::
  "world \<Rightarrow> string \<Rightarrow> string \<Rightarrow> string \<Rightarrow> call list \<Rightarrow> error option \<times> call list" where
  "exportComposeEnv w key val service tr =
     (let tr1 = tr @ [Setenv key val] in
      case onSetenv w tr1 of
        Some err \<Rightarrow> (Some (ErrorfWrap (''could not set env for '' @ service @ '', '') err), tr1)
      | None \<Rightarrow> (None, tr1))"

definition inspectContainer ::
  "world \<Rightarrow> Container \<Rightarrow> call list \<Rightarrow> (error + ContainerJSON) \<times> call list" where
  "inspectContainer w container tr =
     (let tr1 = tr @ [ContainerInspect (ID container)] in (onContainerInspect w tr1, tr1))"

text \<open>The function \<^verbatim>\<open>Ports\<close> of compose.go (the field of a container has the name).\<close>

definition Ports' ::
  "world \<Rightarrow> Container \<Rightarrow> call list \<Rightarrow> (error + (string \<times> PortBinding list) list) \<times> call list" where
  "Ports' w container tr =
     (case inspectContainer w container tr of
        (Inl err, tr1) \<Rightarrow> (Inl err, tr1)
      | (Inr inspect, tr1) \<Rightarrow> (Inr (NetworkSettingsPorts inspect), tr1))"

text \<open>
  \<^verbatim>\<open>nat.SplitProtoPort\<close>, behind the methods \<^verbatim>\<open>Proto()\<close> and \<^verbatim>\<open>Port()\<close>
  of a \<^verbatim>\<open>nat.Port\<close> such as \<^verbatim>\<open>"9200/tcp"\<close>.
\<close>

definition SplitProtoPort :: "string \<Rightarrow> string \<times> string" where
  "SplitProtoPort rawPort =
     (if rawPort = [] then ([], [])
      else (case Split rawPort CHR ''/'' of
              p0 # p1 # rest \<Rightarrow> (if p1 = [] then (''tcp'', p0) else (p1, p0))
            | parts \<Rightarrow> (''tcp'', rawPort)))"

definition Proto :: "string \<Rightarrow> string" where
  "Proto p = fst (SplitProtoPort p)"

definition PortOf :: "string \<Rightarrow> string" where
  "PortOf p = snd (SplitProtoPort p)"

text \<open>
  The loop of \<^verbatim>\<open>MappedPort\<close> over the port map of the inspected container (in the
  order in which \<^verbatim>\<open>range\<close> visits it), and \<^verbatim>\<open>MappedPort\<close>: the mapped port,
  the network mode and the error.
\<close>

fun mappedPortLoop ::
  "world \<Rightarrow> string \<Rightarrow> string \<Rightarrow> (string \<times> PortBinding list) list \<Rightarrow> string \<times> string \<times> error option" where
  "mappedPortLoop w port mode [] = ([], mode, Some (Errorf ''port not found''))"
| "mappedPortLoop w port mode ((k, p) # ports) =
     (if PortOf k \<noteq> PortOf port then mappedPortLoop w port mode ports
      else if Proto port \<noteq> [] \<and> Proto k \<noteq> Proto port then mappedPortLoop w port mode ports
      else (case p of
              [] \<Rightarrow> mappedPortLoop w port mode ports
            | b # bs \<Rightarrow>
                (case NewPort w (Proto k) (HostPort b) of
                   (newPort, err) \<Rightarrow> (newPort, mode, err))))"

definition MappedPort ::
  "world \<Rightarrow> Container \<Rightarrow> string \<Rightarrow> call list \<Rightarrow> (string \<times> string \<times> error option) \<times> call list" where
  "MappedPort w container port tr =
     (case inspectContainer w container tr of
        (Inl err, tr1) \<Rightarrow> (([], [], Some err), tr1)
      | (Inr inspect, tr1) \<Rightarrow>
          if NetworkMode inspect = ''host'' then ((port, NetworkMode inspect, None), tr1)
          else (case Ports' w container tr1 of
                  (Inl err, tr2) \<Rightarrow> (([], NetworkMode inspect, Some err), tr2)
                | (Inr ports, tr2) \<Rightarrow> (mappedPortLoop w port (NetworkMode inspect) ports, tr2)))"

subsection \<open>The two readiness loops\<close>

text \<open>\<^verbatim>\<open>net.JoinHostPort\<close>.\<close>

definition JoinHostPort :: "string \<Rightarrow> string \<Rightarrow> string" where
  "JoinHostPort host port =
     (if CHR '':'' \<in> set host then ''['' @ host @ '']:'' @ port else host @ '':'' @ port)"

text \<open>
  The external check of \<^verbatim>\<open>ComposeSetup\<close>: \<^verbatim>\<open>for { dial; on an error sleep two
  seconds; otherwise close and break }\<close>. The dial runs under
  \<^verbatim>\<open>context.Background()\<close>; the loop has no other exit.
\<close>

partial_function (option) externalCheck :: "world \<Rightarrow> string \<Rightarrow> call list \<Rightarrow> call list option" where
  "externalCheck w address tr =
     (case onDialContext w (tr @ [DialContext address]) of
        Some err \<Rightarrow> externalCheck w address (tr @ [DialContext address, Sleep 2000])
      | None \<Rightarrow> Some (tr @ [DialContext address, ConnClose address]))"

text \<open>
  \<^verbatim>\<open>Exec\<close>: create the exec, start it, and poll its state every 100 milliseconds
  until it is no longer running.
\<close>

partial_function (option) execPoll ::
  "world \<Rightarrow> string \<Rightarrow> call list \<Rightarrow> ((error + int) \<times> call list) option" where
  "execPoll w execID tr =
     (case onContainerExecInspect w (tr @ [ContainerExecInspect execID]) of
        Inl err \<Rightarrow> Some (Inl err, tr @ [ContainerExecInspect execID])
      | Inr (running, exitCode) \<Rightarrow>
          if \<not> running then Some (Inr exitCode, tr @ [ContainerExecInspect execID])
          else execPoll w execID (tr @ [ContainerExecInspect execID, Sleep 100]))"

definition Exec ::
  "world \<Rightarrow> Container \<Rightarrow> string list \<Rightarrow> call list \<Rightarrow> ((error + int) \<times> call list) option" where
  "Exec w c cmd tr =
     (let tr1 = tr @ [ContainerExecCreate (ID c) cmd] in
      case onContainerExecCreate w tr1 of
        Inl err \<Rightarrow> Some (Inl err, tr1)
      | Inr responseID \<Rightarrow>
          (let tr2 = tr1 @ [ContainerExecStart responseID] in
           case onContainerExecStart w tr2 of
             Some err \<Rightarrow> Some (Inl err, tr2)
           | None \<Rightarrow> execPoll w responseID tr2))"

text \<open>
  The internal check: \<^verbatim>\<open>for { exitCode, err := Exec(...); ... }\<close>. The result is
  the error \<^verbatim>\<open>ComposeSetup\<close> returns from inside the loop, or \<open>None\<close> after the
  \<^verbatim>\<open>break\<close>.
\<close>

partial_function (option) internalCheck ::
  "world \<Rightarrow> Container \<Rightarrow> string \<Rightarrow> call list \<Rightarrow> (error option \<times> call list) option" where
  "internalCheck w container command tr =
     (case Exec w container [''/bin/sh'', ''-c'', command] tr of
        None \<Rightarrow> None
      | Some (Inl err, tr1) \<Rightarrow> Some (Some (ErrorfWrap ''host port waiting failed: '' err), tr1)
      | Some (Inr exitCode, tr1) \<Rightarrow>
          if exitCode = 0 then Some (None, tr1)
          else if exitCode = 126 then Some (Some (Errorf ''/bin/sh command not executable''), tr1)
          else internalCheck w container command tr1)"

subsection \<open>\<^verbatim>\<open>ComposeSetup\<close>\<close>

text \<open>
  The body of the innermost loop once a port of the container has the expected private
  port: \<^verbatim>\<open>MappedPort\<close> (its three results are only logged), the external check, the
  internal check, and the export of \<^verbatim>\<open><service>_<port>\<close>. An error is the
  \<^verbatim>\<open>return\<close> of \<^verbatim>\<open>ComposeSetup\<close>; \<open>None\<close> is the \<^verbatim>\<open>break\<close>.
\<close>

definition checkPort ::
  "world \<Rightarrow> string \<Rightarrow> string \<Rightarrow> Container \<Rightarrow> hostPortCachedStrategy \<Rightarrow> types_Port \<Rightarrow> call list
     \<Rightarrow> (error option \<times> call list) option" where
  "checkPort w service ip container strategy containerPort tr =
     (case MappedPort w container (Itoa (expectPort strategy) @ ''/tcp'') tr of
        (logged, tr1) \<Rightarrow>
          (case externalCheck w (JoinHostPort ip (Itoa (uint (PublicPort containerPort)))) tr1 of
             None \<Rightarrow> None
           | Some tr2 \<Rightarrow>
               (case internalCheck w container
                       (buildInternalCheckCommand (uint (PrivatePort containerPort))) tr2 of
                  None \<Rightarrow> None
                | Some (Some err, tr3) \<Rightarrow> Some (Some err, tr3)
                | Some (None, tr3) \<Rightarrow>
                    Some (exportComposeEnv w
                            (service @ ''_'' @ Itoa (uint (PrivatePort containerPort)))
                            (Itoa (uint (PublicPort containerPort))) service tr3))))"

text \<open>
  \<^verbatim>\<open>for _, containerPort := range containerPorts\<close>: a port whose private port differs
  is passed over by \<^verbatim>\<open>continue\<close>; the first one that agrees is checked and ends the
  loop; when none agrees the loop ends and nothing has happened.
\<close>

fun containerPortLoop ::
  "world \<Rightarrow> string \<Rightarrow> string \<Rightarrow> Container \<Rightarrow> hostPortCachedStrategy \<Rightarrow> types_Port list \<Rightarrow> call list
     \<Rightarrow> (error option \<times> call list) option" where
  "containerPortLoop w service ip container strategy [] tr = Some (None, tr)"
| "containerPortLoop w service ip container strategy (containerPort # containerPorts) tr =
     (if uint (PrivatePort containerPort) \<noteq> expectPort strategy
      then containerPortLoop w service ip container strategy containerPorts tr
      else checkPort w service ip container strategy containerPort tr)"

text \<open>\<^verbatim>\<open>for inx := range portList\<close>.\<close>

fun portListLoop ::
  "world \<Rightarrow> string \<Rightarrow> string \<Rightarrow> Container \<Rightarrow> hostPortCachedStrategy list \<Rightarrow> call list
     \<Rightarrow> (error option \<times> call list) option" where
  "portListLoop w service ip container [] tr = Some (None, tr)"
| "portListLoop w service ip container (strategy # portList) tr =
     (case containerPortLoop w service ip container strategy (Ports container) tr of
        None \<Rightarrow> None
      | Some (Some err, tr1) \<Rightarrow> Some (Some err, tr1)
      | Some (None, tr1) \<Rightarrow> portListLoop w service ip container portList tr1)"

text \<open>
  One round of \<^verbatim>\<open>for service, portList := range serviceWithPorts\<close>: find the
  container, pass over a service without ports, export \<^verbatim>\<open><service>_host\<close>, read
  the ports of the container for the log, and go through the port list.
\<close>

definition serviceBody ::
  "world \<Rightarrow> string \<Rightarrow> string \<Rightarrow> hostPortCachedStrategy list \<Rightarrow> call list
     \<Rightarrow> (error option \<times> call list) option" where
  "serviceBody w ip service portList tr =
     (case findContainer w (GetIdentity w @ ''_'' @ getInstanceName service) tr of
        (Inl err2, tr1) \<Rightarrow> Some (Some err2, tr1)
      | (Inr container, tr1) \<Rightarrow>
          if portList = [] then Some (None, tr1)
          else (case exportComposeEnv w (service @ ''_host'') ip service tr1 of
                  (Some err2, tr2) \<Rightarrow> Some (Some err2, tr2)
                | (None, tr2) \<Rightarrow>
                    (case Ports' w container tr2 of
                       (logged, tr3) \<Rightarrow> portListLoop w service ip container portList tr3)))"

fun serviceLoop ::
  "world \<Rightarrow> string \<Rightarrow> (string \<times> hostPortCachedStrategy list) list \<Rightarrow> call list
     \<Rightarrow> (error option \<times> call list) option" where
  "serviceLoop w ip [] tr = Some (None, tr)"
| "serviceLoop w ip ((service, portList) # serviceWithPorts) tr =
     (case serviceBody w ip service portList tr of
        None \<Rightarrow> None
      | Some (Some err, tr1) \<Rightarrow> Some (Some err, tr1)
      | Some (None, tr1) \<Rightarrow> serviceLoop w ip serviceWithPorts tr1)"

text \<open>
  \<^verbatim>\<open>inAContainer\<close>, whose answer is only logged, and \<^verbatim>\<open>ComposeSetup\<close>. The
  errors of \<^verbatim>\<open>getDefaultNetwork\<close> and of \<^verbatim>\<open>getGatewayIP\<close> are assigned to
  \<^verbatim>\<open>err\<close> and never read: the next assignment to \<^verbatim>\<open>err\<close> is that of
  \<^verbatim>\<open>bindWaitPort\<close>. The result is the returned error (\<open>None\<close> for nil) and
  the run, or \<open>None\<close> when a loop never ends.
\<close>

definition inAContainer :: "world \<Rightarrow> call list \<Rightarrow> bool \<times> call list" where
  "inAContainer w tr =
     (let tr1 = tr @ [Stat ''/.dockerenv''] in (onStat w tr1 = None, tr1))"

definition ComposeSetup :: "world \<Rightarrow> Setup \<Rightarrow> call list \<Rightarrow> (error option \<times> call list) option" where
  "ComposeSetup w setup tr =
     (let composeConfigPath = File setup in
      if composeConfigPath = [] then Some (Some (Errorf ''no compose config file was provided''), tr)
      else
        (let tr1 = tr @ [NewClientWithOpts] in
         case onNewClientWithOpts w tr1 of
           Some err \<Rightarrow> Some (Some err, tr1)
         | None \<Rightarrow>
             (case inAContainer w tr1 of
                (logged, tr1a) \<Rightarrow>
             (case getDefaultNetwork w tr1a of
                (network, tr2) \<Rightarrow>
                  (case getGatewayIP w tr2 of
                     (gateway, tr3) \<Rightarrow>
                       (let ip = valueOf gateway;
                            tr3a = tr3 @ [NewLocalDockerCompose [composeConfigPath] (GetIdentity w)]
                        in case bindWaitPort w setup of
                          Inl err \<Rightarrow> Some (Some (ErrorfWrap ''bind wait ports error: '' err), tr3a)
                        | Inr serviceWithPorts \<Rightarrow>
                            (let tr4 = tr3a @ [ComposeInvoke [''up'', ''-d'']] in
                             case onComposeInvoke w tr4 of
                               Some err \<Rightarrow> Some (Some err, tr4)
                             | None \<Rightarrow>
                                 (case serviceLoop w ip serviceWithPorts tr4 of
                                    None \<Rightarrow> None
                                  | Some (Some err, tr5) \<Rightarrow> Some (Some err, tr5)
                                  | Some (None, tr5) \<Rightarrow>
                                      (let tr6 = tr5 @ [RunStepsAndWait (Steps setup) (Timeout setup) False] in
                                       case onRunStepsAndWait w tr6 of
                                         Some err \<Rightarrow> Some (Some err, tr6)
                                       | None \<Rightarrow> Some (None, tr6))))))))))"

subsection \<open>Runs of the two loops\<close>

text \<open>
  What \<open>k\<close> failed rounds of the external check add to the run: a dial and a sleep of
  two seconds, \<open>k\<close> times.
\<close>

definition failedDials :: "string \<Rightarrow> nat \<Rightarrow> call list" where
  "failedDials address k = concat (replicate k [DialContext address, Sleep 2000])"

text \<open>
  The internal check seen through the exit codes: \<open>execRounds w c command codes tr\<close> is
  the run after \<^verbatim>\<open>Exec\<close> has been called once for every element of \<open>codes\<close> and
  has returned exactly these exit codes, in this order, without error; \<open>None\<close> when the
  world answers otherwise.
\<close>

fun execRounds :: "world \<Rightarrow> Container \<Rightarrow> string \<Rightarrow> int list \<Rightarrow> call list \<Rightarrow> call list option" where
  "execRounds w c command [] tr = Some tr"
| "execRounds w c command (code # codes) tr =
     (case Exec w c [''/bin/sh'', ''-c'', command] tr of
        Some (Inr exitCode, tr1) \<Rightarrow>
          if exitCode = code then execRounds w c command codes tr1 else None
      | other \<Rightarrow> None)"

text \<open>A strategy with another startup timeout.\<close>

definition retime :: "64 word \<Rightarrow> hostPortCachedStrategy \<Rightarrow> hostPortCachedStrategy" where
  "retime t strategy = strategy\<lparr>startupTimeout := t\<rparr>"

section \<open>The kind backend (kind.go)\<close>

subsection \<open>Data and the outside world\<close>

text \<open>
  The objects of the cluster are opaque: a pod and a service are known by a name, the
  options of a wait by the flags and arguments they were made from.
  \<^verbatim>\<open>ro.(*v1.Service)\<close> asks whether the runtime object is a service.
\<close>

datatype Pod = Pod string

datatype Service = Service string

datatype WaitOptions = WaitOptions waitFlags "string list"

datatype runtime_Object = IsService Service | NoService

record ForwardedPort =
  Local :: "16 word"
  Remote :: "16 word"

record kindPort =
  inputPort :: string
  realPort :: int
  waitExpose :: string

text \<open>
  \<^verbatim>\<open>kindPortForwardContext\<close>: \<open>resourceCount\<close>, and the capacities with which
  \<^verbatim>\<open>exposeKindService\<close> makes the two channels. What the channels hold changes
  while the tunnels run; that is part of the state of the tunnels below.
\<close>

record kindPortForwardContext =
  resourceCount :: int
  stopChannelCap :: nat
  resourceFinishedChannelCap :: nat

text \<open>
  The package variables \<^verbatim>\<open>kindConfigPath\<close>, \<^verbatim>\<open>kubeConfigPath\<close> and
  \<^verbatim>\<open>portForwardContext\<close> (\<open>None\<close> for nil), beside the run.
\<close>

record kstate =
  calls :: "call list"
  kindConfigPath :: string
  kubeConfigPath :: string
  portForwardContext :: "kindPortForwardContext option"

text \<open>
  What the \<^verbatim>\<open>select\<close> of \<^verbatim>\<open>exposePerKindService\<close> sees after it has started
  the tunnel: the ready channel, an error of \<^verbatim>\<open>ForwardPorts\<close>, or neither, ever.
\<close>

datatype forward_start = Ready | ForwardError error | Neither

text \<open>
  The answers of the cluster, of the kind command and of the operating system; the
  constants of the package \<^verbatim>\<open>constant\<close>; \<^verbatim>\<open>util.ResolveAbs\<close>; and the three
  lookups of \<^verbatim>\<open>kubectl/pkg/util\<close>, which are functions of the objects.
\<close>

record kworld =
  K8sClusterConfigFilePath :: string
  SingleDefaultWaitTimeout :: "64 word"
  KindDefaultWaitTimeout :: "64 word"
  ResolveAbs :: "string \<Rightarrow> string"
  LookupContainerPortNumberByName :: "Pod \<Rightarrow> string \<Rightarrow> error + 32 word"
  LookupServicePortNumberByName :: "Service \<Rightarrow> string \<Rightarrow> error + 32 word"
  LookupContainerPortNumberByServicePort :: "Service \<Rightarrow> Pod \<Rightarrow> 32 word \<Rightarrow> error + 32 word"
  onKindRun :: "call list \<Rightarrow> error option"
  onKindSetenv :: "call list \<Rightarrow> error option"
  onExpandEnv :: "call list \<Rightarrow> string"
  onConnectToK8sCluster :: "call list \<Rightarrow> error option"
  onKindRunStepsAndWait :: "call list \<Rightarrow> error option"
  onToOptions :: "call list \<Rightarrow> error + WaitOptions"
  onReadFile :: "call list \<Rightarrow> error + string"
  onToRESTConfig :: "call list \<Rightarrow> error option"
  onRoundTripperFor :: "call list \<Rightarrow> error option"
  onRESTClientFor :: "call list \<Rightarrow> error option"
  onBuilderDoObject :: "call list \<Rightarrow> error + runtime_Object"
  onAttachablePodForObject :: "call list \<Rightarrow> error + Pod"
  onPortforwardNew :: "call list \<Rightarrow> error option"
  onGoForwardPorts :: "call list \<Rightarrow> forward_start"
  onGetPorts :: "call list \<Rightarrow> error + ForwardedPort list"

definition invoke :: "call \<Rightarrow> kstate \<Rightarrow> kstate" where
  "invoke c st = st\<lparr>calls := calls st @ [c]\<rparr>"

subsection \<open>Waiting for a condition\<close>

text \<open>
  \<^verbatim>\<open>getWaitOptions\<close>. The first statement compares the two selectors; only after
  it come the REST client getter, the opened null device, the flags and
  \<^verbatim>\<open>ToOptions\<close>.
\<close>

definition getWaitOptions :: "kworld \<Rightarrow> Wait \<Rightarrow> call list \<Rightarrow> (error + WaitOptions) \<times> call list" where
  "getWaitOptions kw wait tr =
     (if Contains (Wait.Resource wait) CHR ''/'' \<and> LabelSelector wait \<noteq> [] then
        (Inl (Errorf (''when passing resource.group/resource.name in Resource, '' @
                      ''the labelSelector can not be set at the same time'')), tr)
      else
        (let tr1 = tr @ [OpenDevNull] in
         if Wait.Resource wait = [] then (Inl (Errorf ''resource must be provided in wait block''), tr1)
         else
           (let waitFlags = \<lparr>WaitTimeout = SingleDefaultWaitTimeout kw, ForCondition = For wait,
                  FlagLabelSelector =
                    (if LabelSelector wait \<noteq> [] then Some (LabelSelector wait) else None),
                  FlagAll =
                    (if LabelSelector wait \<noteq> [] then None
                     else if \<not> Contains (Wait.Resource wait) CHR ''/'' then Some True else None)\<rparr>;
                tr2 = tr1 @ [ToOptions waitFlags [Wait.Resource wait]]
            in case onToOptions kw tr2 of
                 Inl err \<Rightarrow> (Inl err, tr2)
               | Inr options \<Rightarrow> (Inr options, tr2))))"

subsection \<open>Creating the cluster\<close>

definition createKindCluster :: "kworld \<Rightarrow> string \<Rightarrow> kstate \<Rightarrow> error option \<times> kstate" where
  "createKindCluster kw configPath st =
     (let st1 = st\<lparr>kubeConfigPath := K8sClusterConfigFilePath kw\<rparr>;
          args = [''create'', ''cluster'', ''--config'', configPath, ''--kubeconfig'', kubeConfigPath st1];
          st2 = invoke (KindRun args) st1
      in case onKindRun kw (calls st2) of
           Some err \<Rightarrow> (Some err, st2)
         | None \<Rightarrow>
             (let st3 = invoke (Setenv ''KUBECONFIG'' (kubeConfigPath st2)) st2 in
              case onKindSetenv kw (calls st3) of
                Some err \<Rightarrow> (Some (ErrorfWrap ''could not export kubeconfig file path, '' err), st3)
              | None \<Rightarrow> (None, st3)))"

text \<open>The loop of \<^verbatim>\<open>KindSetup\<close> that imports the images.\<close>

fun importImages :: "kworld \<Rightarrow> string list \<Rightarrow> kstate \<Rightarrow> error option \<times> kstate" where
  "importImages kw [] st = (None, st)"
| "importImages kw (img # images) st =
     (let st1 = invoke (ExpandEnv img) st;
          st2 = invoke (KindRun [''load'', ''docker-image'', onExpandEnv kw (calls st1)]) st1
      in case onKindRun kw (calls st2) of
           Some err \<Rightarrow> (Some err, st2)
         | None \<Rightarrow> importImages kw images st2)"

subsection \<open>Exposing ports\<close>

definition exportKindEnv :: "kworld \<Rightarrow> string \<Rightarrow> string \<Rightarrow> string \<Rightarrow> kstate \<Rightarrow> error option \<times> kstate" where
  "exportKindEnv kw key val res st =
     (let st1 = invoke (Setenv key val) st in
      case onKindSetenv kw (calls st1) of
        Some err \<Rightarrow> (Some (ErrorfWrap (''could not set env for '' @ res @ '', '') err), st1)
      | None \<Rightarrow> (None, st1))"

text \<open>The element of index 1, and of index 0, of a split string; a missing one panics.\<close>

definition segment1 :: "string list \<Rightarrow> error + string" where
  "segment1 parts = (case parts of p0 # p1 # rest \<Rightarrow> Inr p1 | other \<Rightarrow> Inl (Panic ''index out of range''))"

definition segment0 :: "string list \<Rightarrow> error + string" where
  "segment0 parts = (case parts of p0 # rest \<Rightarrow> Inr p0 | [] \<Rightarrow> Inl (Panic ''index out of range''))"

text \<open>\<^verbatim>\<open>buildKindPort\<close>, after the two assignments to \<^verbatim>\<open>needExpose\<close> and \<^verbatim>\<open>remotePort\<close>.\<close>

definition buildKindPortFor ::
  "kworld \<Rightarrow> string \<Rightarrow> string \<Rightarrow> string \<Rightarrow> runtime_Object \<Rightarrow> Pod \<Rightarrow> error + kindPort" where
  "buildKindPortFor kw port needExpose remotePort ro pod =
     (case ro of
        NoService \<Rightarrow>
          (case Atoi remotePort of
             Inr remotePortInt \<Rightarrow>
               Inr \<lparr>inputPort = remotePort, realPort = remotePortInt, waitExpose = needExpose\<rparr>
           | Inl err \<Rightarrow>
               (case LookupContainerPortNumberByName kw pod remotePort of
                  Inl err \<Rightarrow> Inl err
                | Inr containerPort \<Rightarrow>
                    Inr \<lparr>inputPort = remotePort, realPort = sint containerPort, waitExpose = needExpose\<rparr>))
      | IsService service \<Rightarrow>
          (case (case ParseInt remotePort 32 of
                   Inl err \<Rightarrow> LookupServicePortNumberByName kw service remotePort
                 | Inr portnum64 \<Rightarrow> Inr (word_of_int portnum64)) of
             Inl err1 \<Rightarrow> Inl err1
           | Inr portnum \<Rightarrow>
               (case LookupContainerPortNumberByServicePort kw service pod portnum of
                  Inl err \<Rightarrow> Inl err
                | Inr containerPort \<Rightarrow>
                    (let realPort = sint containerPort in
                     if Itoa realPort \<noteq> remotePort then
                       (case (if Contains port CHR '':'' then segment0 (Split port CHR '':'') else Inr []) of
                          Inl err \<Rightarrow> Inl err
                        | Inr localPort \<Rightarrow>
                            Inr \<lparr>inputPort = remotePort, realPort = realPort,
                                 waitExpose = localPort @ '':'' @ Itoa realPort\<rparr>)
                     else Inr \<lparr>inputPort = remotePort, realPort = realPort, waitExpose = needExpose\<rparr>))))"

definition buildKindPort :: "kworld \<Rightarrow> string \<Rightarrow> runtime_Object \<Rightarrow> Pod \<Rightarrow> error + kindPort" where
  "buildKindPort kw port ro pod =
     (if Contains port CHR '':'' then
        (case segment1 (Split port CHR '':'') of
           Inl err \<Rightarrow> Inl err
         | Inr remotePort \<Rightarrow> buildKindPortFor kw port port remotePort ro pod)
      else buildKindPortFor kw port ('':'' @ port) port ro pod)"

text \<open>The loop of \<^verbatim>\<open>exposePerKindService\<close> that converts the port tokens.\<close>

fun convertPorts :: "kworld \<Rightarrow> string list \<Rightarrow> runtime_Object \<Rightarrow> Pod \<Rightarrow> error + kindPort list" where
  "convertPorts kw [] ro pod = Inr []"
| "convertPorts kw (p # ports) ro pod =
     (case buildKindPort kw p ro pod of
        Inl err \<Rightarrow> Inl err
      | Inr kp \<Rightarrow>
          (case convertPorts kw ports ro pod of
             Inl err \<Rightarrow> Inl err
           | Inr kps \<Rightarrow> Inr (kp # kps)))"

text \<open>
  The name under which a resource is published: every \<^verbatim>\<open>/\<close> and then every
  \<^verbatim>\<open>-\<close> replaced by \<^verbatim>\<open>_\<close> (the two \<^verbatim>\<open>strings.ReplaceAll\<close> of
  \<^verbatim>\<open>exposePerKindService\<close>), and the two formats of the keys.
\<close>

definition resourceName :: "string \<Rightarrow> string" where
  "resourceName res = ReplaceAll (ReplaceAll res CHR ''/'' CHR ''_'') CHR ''-'' CHR ''_''"

definition hostKey :: "string \<Rightarrow> string" where
  "hostKey res = resourceName res @ ''_host''"

definition portKey :: "string \<Rightarrow> string \<Rightarrow> string" where
  "portKey res input = resourceName res @ ''_'' @ input"

text \<open>The two nested loops that publish the forwarded ports.\<close>

fun exportConverted ::
  "kworld \<Rightarrow> string \<Rightarrow> ForwardedPort \<Rightarrow> kindPort list \<Rightarrow> kstate \<Rightarrow> error option \<times> kstate" where
  "exportConverted kw res p [] st = (None, st)"
| "exportConverted kw res p (kp # convertedPorts) st =
     (if uint (Remote p) = realPort kp then
        (case exportKindEnv kw (portKey res (inputPort kp)) (Itoa (uint (Local p))) res st of
           (Some err1, st1) \<Rightarrow> (Some err1, st1)
         | (None, st1) \<Rightarrow> exportConverted kw res p convertedPorts st1)
      else exportConverted kw res p convertedPorts st)"

fun exportForwarded ::
  "kworld \<Rightarrow> string \<Rightarrow> ForwardedPort list \<Rightarrow> kindPort list \<Rightarrow> kstate \<Rightarrow> error option \<times> kstate" where
  "exportForwarded kw res [] convertedPorts st = (None, st)"
| "exportForwarded kw res (p # exportedPorts) convertedPorts st =
     (case exportConverted kw res p convertedPorts st of
        (Some err1, st1) \<Rightarrow> (Some err1, st1)
      | (None, st1) \<Rightarrow> exportForwarded kw res exportedPorts convertedPorts st1)"

text \<open>
  \<^verbatim>\<open>exposePerKindService\<close>. Every \<^verbatim>\<open>return\<close> before \<^verbatim>\<open>go func()\<close> leaves
  without a tunnel worker; the call \<open>GoForwardPorts\<close> is the start of the worker, and
  every \<^verbatim>\<open>return\<close> after it leaves the worker behind. \<open>None\<close>: the
  \<^verbatim>\<open>select\<close> waits forever.
\<close>

definition exposePerKindService ::
  "kworld \<Rightarrow> KindExposePort \<Rightarrow> 64 word \<Rightarrow> kstate \<Rightarrow> (error option \<times> kstate) option" where
  "exposePerKindService kw port timeout st =
     (let st1 = invoke (BuilderDoObject (KindExposePort.Namespace port) (KindExposePort.Resource port)) st in
      case onBuilderDoObject kw (calls st1) of
        Inl err \<Rightarrow> Some (Some err, st1)
      | Inr obj \<Rightarrow>
          (let st2 = invoke (AttachablePodForObject timeout) st1 in
           case onAttachablePodForObject kw (calls st2) of
             Inl err \<Rightarrow> Some (Some err, st2)
           | Inr forwardablePod \<Rightarrow>
               (case convertPorts kw (Split (Port port) CHR '','') obj forwardablePod of
                  Inl err \<Rightarrow> Some (Some err, st2)
                | Inr convertedPorts \<Rightarrow>
                    (let st3 = invoke (PortforwardNew (map waitExpose convertedPorts)) st2 in
                     case onPortforwardNew kw (calls st3) of
                       Some err \<Rightarrow> Some (Some err, st3)
                     | None \<Rightarrow>
                         (let st4 = invoke GoForwardPorts st3 in
                          case onGoForwardPorts kw (calls st4) of
                            Neither \<Rightarrow> None
                          | ForwardError err \<Rightarrow> Some (Some (ErrorfWrap ''create forward error, '' err), st4)
                          | Ready \<Rightarrow>
                              (let st5 = invoke GetPorts st4 in
                               case onGetPorts kw (calls st5) of
                                 Inl err1 \<Rightarrow> Some (Some err1, st5)
                               | Inr exportedPorts \<Rightarrow>
                                   (case exportKindEnv kw (hostKey (KindExposePort.Resource port))
                                           ''localhost'' (KindExposePort.Resource port) st5 of
                                      (Some err1, st6) \<Rightarrow> Some (Some err1, st6)
                                    | (None, st6) \<Rightarrow>
                                        Some (exportForwarded kw (KindExposePort.Resource port)
                                                exportedPorts convertedPorts st6))))))))"

text \<open>The loop of \<^verbatim>\<open>exposeKindService\<close> over the exposures.\<close>

fun exposeAll ::
  "kworld \<Rightarrow> KindExposePort list \<Rightarrow> 64 word \<Rightarrow> kstate \<Rightarrow> (error option \<times> kstate) option" where
  "exposeAll kw [] waitTimeout st = Some (None, st)"
| "exposeAll kw (p # exports) waitTimeout st =
     (case exposePerKindService kw p waitTimeout st of
        None \<Rightarrow> None
      | Some (Some err, st1) \<Rightarrow> Some (Some err, invoke CancelFunc st1)
      | Some (None, st1) \<Rightarrow> exposeAll kw exports waitTimeout st1)"

text \<open>
  \<^verbatim>\<open>exposeKindService\<close>: the context is made with \<open>resourceCount\<close> and the capacity
  of the completion channel both \<^verbatim>\<open>len(exports)\<close>, and it becomes
  \<^verbatim>\<open>portForwardContext\<close> only after every exposure has succeeded.
\<close>

definition exposeKindService ::
  "kworld \<Rightarrow> KindExposePort list \<Rightarrow> int \<Rightarrow> string \<Rightarrow> kstate \<Rightarrow> (error option \<times> kstate) option" where
  "exposeKindService kw exports timeout kubeConfig st =
     (let st1 = invoke (ReadFile kubeConfig) st in
      case onReadFile kw (calls st1) of
        Inl err \<Rightarrow> Some (Some err, st1)
      | Inr kubeConfigYaml \<Rightarrow>
          (let st2 = invoke ToRESTConfig st1 in
           case onToRESTConfig kw (calls st2) of
             Some err \<Rightarrow> Some (Some err, st2)
           | None \<Rightarrow>
               (let st3 = invoke RoundTripperFor st2 in
                case onRoundTripperFor kw (calls st3) of
                  Some err \<Rightarrow> Some (Some err, st3)
                | None \<Rightarrow>
                    (let st4 = invoke RESTClientFor st3 in
                     case onRESTClientFor kw (calls st4) of
                       Some err \<Rightarrow> Some (Some err, st4)
                     | None \<Rightarrow>
                         (let waitTimeout =
                                (if timeout \<le> 0 then KindDefaultWaitTimeout kw
                                 else word_of_int timeout * 1000000000);
                              forwardContext =
                                \<lparr>resourceCount = int (length exports), stopChannelCap = 1,
                                 resourceFinishedChannelCap = length exports\<rparr>
                          in case exposeAll kw exports waitTimeout st4 of
                               None \<Rightarrow> None
                             | Some (Some err, st5) \<Rightarrow> Some (Some err, st5)
                             | Some (None, st5) \<Rightarrow>
                                 Some (None, st5\<lparr>portForwardContext := Some forwardContext\<rparr>))))))"

subsection \<open>\<^verbatim>\<open>KindSetup\<close>\<close>

definition KindSetup :: "kworld \<Rightarrow> Setup \<Rightarrow> kstate \<Rightarrow> (error option \<times> kstate) option" where
  "KindSetup kw setup st =
     (let st0 = st\<lparr>kindConfigPath := File setup\<rparr> in
      if kindConfigPath st0 = [] then Some (Some (Errorf ''no kind config file was provided''), st0)
      else if Steps setup = None then Some (None, st0)
      else
        (let st1 = (if InitSystemEnvironment setup \<noteq> []
                    then invoke (ExportEnvVars (ResolveAbs kw (InitSystemEnvironment setup))) st0
                    else st0)
         in case createKindCluster kw (kindConfigPath st1) st1 of
              (Some err, st2) \<Rightarrow> Some (Some err, st2)
            | (None, st2) \<Rightarrow>
                (case importImages kw (ImportImages setup) st2 of
                   (Some err, st3) \<Rightarrow> Some (Some err, st3)
                 | (None, st3) \<Rightarrow>
                     (let st4 = invoke (ConnectToK8sCluster (kubeConfigPath st3)) st3 in
                      case onConnectToK8sCluster kw (calls st4) of
                        Some err \<Rightarrow> Some (Some err, st4)
                      | None \<Rightarrow>
                          (let st5 = invoke (RunStepsAndWait (Steps setup) (Timeout setup) True) st4 in
                           case onKindRunStepsAndWait kw (calls st5) of
                             Some err \<Rightarrow> Some (Some err, st5)
                           | None \<Rightarrow>
                               exposeKindService kw (ExposePorts setup) (Timeout setup)
                                 (kubeConfigPath st5) st5)))))"

definition KindShouldWaitSignal :: "kstate \<Rightarrow> bool" where
  "KindShouldWaitSignal st =
     (case portForwardContext st of None \<Rightarrow> False | Some ctx \<Rightarrow> 0 < resourceCount ctx)"

subsection \<open>The tunnel workers and \<^verbatim>\<open>KindCleanNotify\<close>\<close>

text \<open>
  The goroutines that \<^verbatim>\<open>exposePerKindService\<close> starts run beside
  \<^verbatim>\<open>KindCleanNotify\<close>; a schedule, a list of events, says who moves next.

  A worker is inside \<^verbatim>\<open>forwarder.ForwardPorts()\<close>, or that call has returned (with
  its error or nil), or it has sent on \<^verbatim>\<open>resourceFinishedChannel\<close> and ended. The
  send on its own \<^verbatim>\<open>forwardErrorChannel\<close>, of capacity one and written once, never
  blocks; it is part of the last move.

  \<^verbatim>\<open>KindCleanNotify\<close> has been called, or has sent on \<^verbatim>\<open>stopChannel\<close> and
  stands in its loop with the counter \<^verbatim>\<open>i\<close>, or has returned.
\<close>

datatype worker = Forwarding | Returned "error option" | Finished

datatype notify_pc = Called | Waiting nat | Done

text \<open>
  The state: the package variable \<^verbatim>\<open>portForwardContext\<close>, how many values the two
  channels hold, the capacity of the completion channel, the workers, the place of
  \<^verbatim>\<open>KindCleanNotify\<close>, and two counters of what it has done so far: the stop
  signals it has sent and the acknowledgements it has received.
\<close>

record tunnels =
  bound :: "kindPortForwardContext option"
  stopChannel :: nat
  resourceFinishedChannel :: nat
  finishedCap :: nat
  workers :: "worker list"
  notify :: notify_pc
  stopsSent :: nat
  acknowledged :: nat

text \<open>
  \<open>Notify\<close>: the next statement of \<^verbatim>\<open>KindCleanNotify\<close>. \<open>Stop k\<close>: worker \<open>k\<close>
  receives from \<^verbatim>\<open>stopChannel\<close> and \<^verbatim>\<open>ForwardPorts\<close> returns nil.
  \<open>Return k err\<close>: \<^verbatim>\<open>ForwardPorts\<close> of worker \<open>k\<close> returns by itself (a lost
  connection, an error). \<open>Acknowledge k\<close>: worker \<open>k\<close> sends on
  \<^verbatim>\<open>resourceFinishedChannel\<close>. A move that would block, and a move of a worker that
  is not there, is \<open>None\<close>.
\<close>

datatype event = Notify | Stop nat | Return nat "error option" | Acknowledge nat

fun step :: "event \<Rightarrow> tunnels \<Rightarrow> tunnels option" where
  "step Notify s =
     (case notify s of
        Called \<Rightarrow>
          (case bound s of
             None \<Rightarrow> Some (s\<lparr>notify := Done\<rparr>)
           | Some ctx \<Rightarrow>
               if stopChannel s < stopChannelCap ctx
               then Some (s\<lparr>stopChannel := stopChannel s + 1, stopsSent := stopsSent s + 1,
                            notify := Waiting 0\<rparr>)
               else None)
      | Waiting i \<Rightarrow>
          (case bound s of
             None \<Rightarrow> None
           | Some ctx \<Rightarrow>
               if int i < resourceCount ctx then
                 (if 0 < resourceFinishedChannel s
                  then Some (s\<lparr>resourceFinishedChannel := resourceFinishedChannel s - 1,
                               acknowledged := acknowledged s + 1, notify := Waiting (i + 1)\<rparr>)
                  else None)
               else Some (s\<lparr>notify := Done\<rparr>))
      | Done \<Rightarrow> None)"
| "step (Stop k) s =
     (if k < length (workers s) \<and> workers s ! k = Forwarding \<and> 0 < stopChannel s
      then Some (s\<lparr>stopChannel := stopChannel s - 1, workers := (workers s)[k := Returned None]\<rparr>)
      else None)"
| "step (Return k err) s =
     (if k < length (workers s) \<and> workers s ! k = Forwarding
      then Some (s\<lparr>workers := (workers s)[k := Returned err]\<rparr>)
      else None)"
| "step (Acknowledge k) s =
     (if k < length (workers s) \<and> workers s ! k \<noteq> Forwarding \<and> workers s ! k \<noteq> Finished
         \<and> resourceFinishedChannel s < finishedCap s
      then Some (s\<lparr>resourceFinishedChannel := resourceFinishedChannel s + 1,
                   workers := (workers s)[k := Finished]\<rparr>)
      else None)"

fun steps :: "event list \<Rightarrow> tunnels \<Rightarrow> tunnels option" where
  "steps [] s = Some s"
| "steps (e # es) s = (case step e s of None \<Rightarrow> None | Some s' \<Rightarrow> steps es s')"

text \<open>
  The workers a run has started, and the tunnels when \<^verbatim>\<open>exposeKindService\<close> has
  returned: every worker forwarding, both channels empty, \<^verbatim>\<open>KindCleanNotify\<close> just
  called.
\<close>

definition spawned :: "call list \<Rightarrow> nat" where
  "spawned tr = length (filter (\<lambda>c. c = GoForwardPorts) tr)"

definition tunnelsOf :: "KindExposePort list \<Rightarrow> kstate \<Rightarrow> tunnels" where
  "tunnelsOf exports st =
     \<lparr>bound = portForwardContext st, stopChannel = 0, resourceFinishedChannel = 0,
      finishedCap = length exports, workers = replicate (spawned (calls st)) Forwarding,
      notify = Called, stopsSent = 0, acknowledged = 0\<rparr>"

text \<open>
  What holds of the tunnels of \<open>n\<close> exposures at every moment of every schedule: the
  bound context is the one \<^verbatim>\<open>exposeKindService\<close> made; there are \<open>n\<close> workers;
  every acknowledgement received or still in the channel was sent by a worker that has
  ended; and \<^verbatim>\<open>KindCleanNotify\<close> has sent no stop signal before its first move,
  one afterwards, and has received as many acknowledgements as its loop counter says.
\<close>

definition finishedWorkers :: "tunnels \<Rightarrow> nat" where
  "finishedWorkers s = length (filter (\<lambda>w. w = Finished) (workers s))"

definition barrier :: "nat \<Rightarrow> tunnels \<Rightarrow> bool" where
  "barrier n s =
     (bound s = Some \<lparr>resourceCount = int n, stopChannelCap = 1, resourceFinishedChannelCap = n\<rparr>
      \<and> length (workers s) = n
      \<and> acknowledged s + resourceFinishedChannel s = finishedWorkers s
      \<and> (case notify s of
            Called \<Rightarrow> stopsSent s = 0 \<and> acknowledged s = 0
          | Waiting i \<Rightarrow> stopsSent s = 1 \<and> acknowledged s = i \<and> i \<le> n
          | Done \<Rightarrow> stopsSent s = 1 \<and> acknowledged s = n))"

text \<open>
  The workers that are no longer forwarding, and the events in which a worker ends by
  itself.
\<close>

definition stoppedWorkers :: "tunnels \<Rightarrow> nat" where
  "stoppedWorkers s = length (filter (\<lambda>w. w \<noteq> Forwarding) (workers s))"

fun returnsByItself :: "event \<Rightarrow> bool" where
  "returnsByItself (Return k err) = True"
| "returnsByItself e = False"

definition selfReturns :: "event list \<Rightarrow> nat" where
  "selfReturns schedule = length (filter returnsByItself schedule)"

section \<open>Scenarios\<close>

text \<open>
  Concrete configurations and worlds, at which the properties below are evaluated. The
  cluster \<open>quietCluster\<close> answers every call with success: the object of an exposure
  is a pod, every tunnel becomes ready and forwards the local port 40000 to the remote
  port 8080.
\<close>

definition quietCluster :: kworld where
  "quietCluster =
     \<lparr>K8sClusterConfigFilePath = ''/tmp/e2e-k8s.config'',
      SingleDefaultWaitTimeout = 1800000000000,
      KindDefaultWaitTimeout = 600000000000,
      ResolveAbs = (\<lambda>p. p),
      LookupContainerPortNumberByName = (\<lambda>pod name. Inl (ApiError ''no such container port'')),
      LookupServicePortNumberByName = (\<lambda>service name. Inl (ApiError ''no such service port'')),
      LookupContainerPortNumberByServicePort = (\<lambda>service pod portnum. Inr portnum),
      onKindRun = (\<lambda>tr. None),
      onKindSetenv = (\<lambda>tr. None),
      onExpandEnv = (\<lambda>tr. case last tr of ExpandEnv s \<Rightarrow> s | other \<Rightarrow> []),
      onConnectToK8sCluster = (\<lambda>tr. None),
      onKindRunStepsAndWait = (\<lambda>tr. None),
      onToOptions = (\<lambda>tr. case last tr of
                            ToOptions flags args \<Rightarrow> Inr (WaitOptions flags args)
                          | other \<Rightarrow> Inl (ApiError ''no flags'')),
      onReadFile = (\<lambda>tr. Inr ''kubeconfig''),
      onToRESTConfig = (\<lambda>tr. None),
      onRoundTripperFor = (\<lambda>tr. None),
      onRESTClientFor = (\<lambda>tr. None),
      onBuilderDoObject = (\<lambda>tr. Inr NoService),
      onAttachablePodForObject = (\<lambda>tr. Inr (Pod ''pod'')),
      onPortforwardNew = (\<lambda>tr. None),
      onGoForwardPorts = (\<lambda>tr. Ready),
      onGetPorts = (\<lambda>tr. Inr [\<lparr>Local = 40000, Remote = 8080\<rparr>])\<rparr>"

definition freshState :: kstate where
  "freshState = \<lparr>calls = [], kindConfigPath = [], kubeConfigPath = [], portForwardContext = None\<rparr>"

text \<open>A cluster configuration with a definition file, images and exposures, and no steps.\<close>

definition setupWithoutSteps :: Setup where
  "setupWithoutSteps =
     \<lparr>File = ''kind.yaml'', Timeout = 600, Steps = None, InitSystemEnvironment = ''env.profile'',
      ImportImages = [''oap:latest''],
      ExposePorts = [\<lparr>Namespace = ''default'', Resource = ''service/oap'', Port = ''12800''\<rparr>]\<rparr>"

text \<open>Wait conditions: both selectors, only the named resource, only the label selector.\<close>

definition waitBoth :: Wait where
  "waitBoth = \<lparr>Wait.Namespace = ''default'', Wait.Resource = ''pod/oap'', For = ''condition=Ready'',
               LabelSelector = ''app=oap''\<rparr>"

definition waitNamed :: Wait where
  "waitNamed = \<lparr>Wait.Namespace = ''default'', Wait.Resource = ''pod/oap'', For = ''condition=Ready'',
                LabelSelector = []\<rparr>"

definition waitLabelled :: Wait where
  "waitLabelled = \<lparr>Wait.Namespace = ''default'', Wait.Resource = ''pod'', For = ''condition=Ready'',
                   LabelSelector = ''app=oap''\<rparr>"

text \<open>
  The compose scenario of the specification: a stack that declares the service
  \<^verbatim>\<open>es\<close> with the container port 9200, published on the host port 32001, and the
  network \<^verbatim>\<open>bridge\<close> with the gateway 172.17.0.1. In \<open>quietWorld\<close> every call
  succeeds at once.
\<close>

definition bridgeNetwork :: NetworkResource where
  "bridgeNetwork = \<lparr>Name = ''bridge'', IPAMConfigs = [\<lparr>Gateway = []\<rparr>, \<lparr>Gateway = ''172.17.0.1''\<rparr>]\<rparr>"

definition esContainer :: Container where
  "esContainer =
     \<lparr>ID = ''c0ffee'',
      Ports = [\<lparr>PrivatePort = 9300, PublicPort = 32002\<rparr>, \<lparr>PrivatePort = 9200, PublicPort = 32001\<rparr>]\<rparr>"

definition esInspect :: ContainerJSON where
  "esInspect =
     \<lparr>NetworkMode = ''default'',
      NetworkSettingsPorts = [(''9200/tcp'', [\<lparr>HostIP = ''0.0.0.0'', HostPort = ''32001''\<rparr>])]\<rparr>"

definition esServices :: "(string \<times> iface) list" where
  "esServices =
     [(''es'', VMap [(VString ''image'', VString ''elasticsearch''),
                     (VString ''ports'', VList [VInt 9200])])]"

definition quietWorld :: world where
  "quietWorld =
     \<lparr>GetIdentity = ''e2e'',
      Services = esServices,
      DefaultWaitTimeout = 600000000000,
      NewPort = (\<lambda>proto port. (port @ ''/'' @ proto, None)),
      onNewClientWithOpts = (\<lambda>tr. None),
      onStat = (\<lambda>tr. Some (ApiError ''no such file or directory'')),
      onNetworkList = (\<lambda>tr. Inr [bridgeNetwork]),
      onNetworkCreate = (\<lambda>tr. None),
      onNetworkInspect = (\<lambda>tr. Inr bridgeNetwork),
      onComposeInvoke = (\<lambda>tr. None),
      onContainerList = (\<lambda>tr. Inr [esContainer]),
      onContainerInspect = (\<lambda>tr. Inr esInspect),
      onContainerExecCreate = (\<lambda>tr. Inr ''exec0''),
      onContainerExecStart = (\<lambda>tr. None),
      onContainerExecInspect = (\<lambda>tr. Inr (False, 0)),
      onDialContext = (\<lambda>tr. None),
      onSetenv = (\<lambda>tr. None),
      onRunStepsAndWait = (\<lambda>tr. None)\<rparr>"

definition esSetup :: Setup where
  "esSetup =
     \<lparr>File = ''docker-compose.yml'', Timeout = 60, Steps = Some [], InitSystemEnvironment = [],
      ImportImages = [], ExposePorts = []\<rparr>"

text \<open>The same stack when nothing ever listens: every dial is refused.\<close>

definition refusingWorld :: world where
  "refusingWorld = quietWorld\<lparr>onDialContext := (\<lambda>tr. Some (ApiError ''connection refused''))\<rparr>"

text \<open>The same stack when the first two dials are refused and the third succeeds.\<close>

definition slowWorld :: world where
  "slowWorld =
     quietWorld\<lparr>onDialContext :=
       (\<lambda>tr. if length (filter (\<lambda>c. c = Sleep 2000) tr) < 2
             then Some (ApiError ''connection refused'') else None)\<rparr>"

text \<open>
  The same stack when the shell check exits with 1, then with 2, then with 126; and when
  it exits with 1 and then with 0. The exit code depends on how many execs have been
  started.
\<close>

definition execsStarted :: "call list \<Rightarrow> nat" where
  "execsStarted tr = length (filter (\<lambda>c. c = ContainerExecStart ''exec0'') tr)"

definition flakyWorld :: world where
  "flakyWorld =
     quietWorld\<lparr>onContainerExecInspect :=
       (\<lambda>tr. Inr (False, if execsStarted tr = 1 then 1 else if execsStarted tr = 2 then 2 else 126))\<rparr>"

definition recoveringWorld :: world where
  "recoveringWorld =
     quietWorld\<lparr>onContainerExecInspect :=
       (\<lambda>tr. Inr (False, if execsStarted tr = 1 then 1 else 0))\<rparr>"

text \<open>A stack that declares the container port 9201, which the live container does not have.\<close>

definition missingPortWorld :: world where
  "missingPortWorld =
     quietWorld\<lparr>Services := [(''es'', VMap [(VString ''ports'', VList [VInt 9201])])]\<rparr>"

text \<open>
  The same stack as in \<open>quietWorld\<close> when the daemon cannot list the networks and
  knows no network of the empty name; and when the network it reports has no gateway.
\<close>

definition noNetworkWorld :: world where
  "noNetworkWorld =
     quietWorld\<lparr>onNetworkList := (\<lambda>tr. Inl (ApiError ''cannot list networks'')),
                onNetworkInspect := (\<lambda>tr. Inl (ApiError ''network  not found''))\<rparr>"

definition noGatewayWorld :: world where
  "noGatewayWorld =
     quietWorld\<lparr>onNetworkInspect := (\<lambda>tr. Inr \<lparr>Name = ''bridge'', IPAMConfigs = [\<lparr>Gateway = []\<rparr>]\<rparr>)\<rparr>"

text \<open>
  Three exposures in \<open>quietCluster\<close>, and a schedule of their teardown: the first
  tunnel loses its connection and ends before \<^verbatim>\<open>KindCleanNotify\<close> is called; the
  second takes the stop signal; the third ends by itself while
  \<^verbatim>\<open>KindCleanNotify\<close> is waiting.
\<close>

definition threeExports :: "KindExposePort list" where
  "threeExports =
     [\<lparr>Namespace = ''default'', Resource = ''pod/oap'', Port = ''8080''\<rparr>,
      \<lparr>Namespace = ''default'', Resource = ''pod/ui'', Port = ''8080''\<rparr>,
      \<lparr>Namespace = ''default'', Resource = ''pod/es'', Port = ''8080''\<rparr>]"

definition threeSchedule :: "event list" where
  "threeSchedule =
     [Return 0 (Some (ApiError ''lost connection to pod'')), Acknowledge 0,
      Notify, Stop (Suc 0), Notify, Acknowledge (Suc 0), Notify,
      Return (Suc (Suc 0)) None, Acknowledge (Suc (Suc 0)), Notify, Notify]"

text \<open>
  The state of the process after the three exposures, and the tunnels at the end of the
  schedule.
\<close>

definition threeState :: kstate where
  "threeState =
     \<lparr>calls =
        [ReadFile ''/tmp/e2e-k8s.config'', ToRESTConfig, RoundTripperFor, RESTClientFor,
         BuilderDoObject ''default'' ''pod/oap'', AttachablePodForObject 60000000000,
         PortforwardNew ['':8080''], GoForwardPorts, GetPorts,
         Setenv ''pod_oap_host'' ''localhost'', Setenv ''pod_oap_8080'' ''40000'',
         BuilderDoObject ''default'' ''pod/ui'', AttachablePodForObject 60000000000,
         PortforwardNew ['':8080''], GoForwardPorts, GetPorts,
         Setenv ''pod_ui_host'' ''localhost'', Setenv ''pod_ui_8080'' ''40000'',
         BuilderDoObject ''default'' ''pod/es'', AttachablePodForObject 60000000000,
         PortforwardNew ['':8080''], GoForwardPorts, GetPorts,
         Setenv ''pod_es_host'' ''localhost'', Setenv ''pod_es_8080'' ''40000''],
      kindConfigPath = [], kubeConfigPath = [],
      portForwardContext =
        Some \<lparr>resourceCount = 3, stopChannelCap = 1, resourceFinishedChannelCap = 3\<rparr>\<rparr>"

definition threeDone :: tunnels where
  "threeDone =
     \<lparr>bound = Some \<lparr>resourceCount = 3, stopChannelCap = 1, resourceFinishedChannelCap = 3\<rparr>,
      stopChannel = 0, resourceFinishedChannel = 0, finishedCap = 3,
      workers = [Finished, Finished, Finished],
      notify = Done, stopsSent = 1, acknowledged = 3\<rparr>"

text \<open>A schedule of the three tunnels in which no worker ends by itself.\<close>

definition stopOnlySchedule :: "event list" where
  "stopOnlySchedule = [Notify, Stop 0, Acknowledge 0, Notify]"

text \<open>
  The teardown of the three tunnels when one worker errors: \<^verbatim>\<open>KindCleanNotify\<close>
  sends the stop signal, the first tunnel loses its connection and acknowledges, the
  second takes the stop signal and acknowledges, and \<^verbatim>\<open>KindCleanNotify\<close>
  receives both acknowledgements. The tunnels at the end of that schedule: the third
  worker is still inside \<^verbatim>\<open>ForwardPorts\<close>, \<^verbatim>\<open>stopChannel\<close> is empty, and
  \<^verbatim>\<open>KindCleanNotify\<close> stands in its loop with \<^verbatim>\<open>i = 2\<close>.
\<close>

definition oneErrorSchedule :: "event list" where
  "oneErrorSchedule =
     [Notify, Return 0 (Some (ApiError ''lost connection to pod'')), Acknowledge 0, Notify,
      Stop (Suc 0), Acknowledge (Suc 0), Notify]"

definition threeHung :: tunnels where
  "threeHung =
     \<lparr>bound = Some \<lparr>resourceCount = 3, stopChannelCap = 1, resourceFinishedChannelCap = 3\<rparr>,
      stopChannel = 0, resourceFinishedChannel = 0, finishedCap = 3,
      workers = [Finished, Finished, Forwarding],
      notify = Waiting 2, stopsSent = 1, acknowledged = 2\<rparr>"

text \<open>
  The exposure of the resource \<^verbatim>\<open>app/my-service\<close>, and the state of the process
  after it.
\<close>

definition myService :: KindExposePort where
  "myService = \<lparr>Namespace = ''default'', Resource = ''app/my-service'', Port = ''8080''\<rparr>"

definition myServiceState :: kstate where
  "myServiceState =
     \<lparr>calls =
        [BuilderDoObject ''default'' ''app/my-service'', AttachablePodForObject 60000000000,
         PortforwardNew ['':8080''], GoForwardPorts, GetPorts,
         Setenv ''app_my_service_host'' ''localhost'', Setenv ''app_my_service_8080'' ''40000''],
      kindConfigPath = [], kubeConfigPath = [], portForwardContext = None\<rparr>"

text \<open>The compose stack when the daemon lists no container of the wanted name.\<close>

definition noContainerWorld :: world where
  "noContainerWorld = quietWorld\<lparr>onContainerList := (\<lambda>tr. Inr [])\<rparr>"

section \<open>Properties\<close>

subsection \<open>Decimal numerals and splitting\<close>

lemma is_digit_digit_char: "d < 10 \<Longrightarrow> is_digit (digit_char d)"
  by (simp add: is_digit_def digit_char_def)

lemma digit_val_digit_char: "d < 10 \<Longrightarrow> digit_val (digit_char d) = d"
  by (simp add: digit_val_def digit_char_def)

lemma parseUint_snoc:
  "parseUint bits a (xs @ [c]) =
     (case parseUint bits a xs of
        Inl e \<Rightarrow> Inl e
      | Inr m \<Rightarrow> if \<not> is_digit c then Inl ErrSyntax
                 else if 2 ^ bits \<le> m * 10 + digit_val c then Inl ErrRange
                 else Inr (m * 10 + digit_val c))"
  by (induction xs arbitrary: a) auto

lemma parseUint_digits: "n < 2 ^ bits \<Longrightarrow> parseUint bits 0 (digits n) = Inr n"
proof (induction n rule: digits.induct)
  case (1 n)
  show ?case
  proof (cases "n < 10")
    case True
    with "1.prems" show ?thesis
      by (subst digits.simps) (simp add: is_digit_digit_char digit_val_digit_char)
  next
    case False
    have lt: "n div 10 < 2 ^ bits" using "1.prems" by (simp add: div_less_dividend less_trans)
    have ih: "parseUint bits 0 (digits (n div 10)) = Inr (n div 10)"
      using "1.IH" [OF False lt] .
    have m: "n mod 10 < 10" by simp
    have recompose: "n div 10 * 10 + n mod 10 = n" by simp
    show ?thesis
      using False "1.prems"
      by (subst digits.simps)
         (simp add: parseUint_snoc ih is_digit_digit_char digit_val_digit_char recompose)
  qed
qed

lemma digits_not_Nil: "digits n \<noteq> []"
  by (subst digits.simps) simp

lemma hd_digits_digit: "is_digit (hd (digits n))"
proof (induction n rule: digits.induct)
  case (1 n)
  show ?case
  proof (cases "n < 10")
    case True
    then show ?thesis by (subst digits.simps) (simp add: is_digit_digit_char)
  next
    case False
    with 1 show ?thesis by (subst digits.simps) (simp add: digits_not_Nil)
  qed
qed

lemma is_digit_not_sign: "is_digit c \<Longrightarrow> c \<noteq> CHR ''-'' \<and> c \<noteq> CHR ''+''"
  by (auto simp: is_digit_def)

lemma digits_all_digit: "c \<in> set (digits n) \<Longrightarrow> is_digit c"
proof (induction n rule: digits.induct)
  case (1 n)
  show ?case
  proof (cases "n < 10")
    case True
    with "1.prems" show ?thesis by (subst (asm) digits.simps) (simp add: is_digit_digit_char)
  next
    case False
    with 1 show ?thesis by (subst (asm) digits.simps) (auto simp add: is_digit_digit_char)
  qed
qed

lemma Atoi_Itoa: "- (2 ^ 63) \<le> i \<Longrightarrow> i < 2 ^ 63 \<Longrightarrow> Atoi (Itoa i) = Inr i"
proof (cases "i < 0")
  case True
  assume b: "- (2 ^ 63) \<le> i"
  have n: "nat (- i) < 2 ^ 64" using b True by simp
  have le: "\<not> 2 ^ 63 < nat (- i)" using b by simp
  show ?thesis using True le
    by (simp add: Atoi_def ParseInt_def Itoa_def digits_not_Nil parseUint_digits [OF n])
next
  case False
  assume b: "i < 2 ^ 63"
  have n: "nat i < 2 ^ 64" using b False by simp
  have le: "\<not> 2 ^ 63 \<le> nat i" using b False by simp
  have s: "hd (digits (nat i)) \<noteq> CHR ''-''" "hd (digits (nat i)) \<noteq> CHR ''+''"
    using is_digit_not_sign [OF hd_digits_digit [of "nat i"]] by auto
  show ?thesis using False le s
    by (simp add: Atoi_def ParseInt_def Itoa_def digits_not_Nil parseUint_digits [OF n])
qed

lemma Split_no_sep: "sep \<notin> set s \<Longrightarrow> Split s sep = [s]"
  by (induction s) auto

lemma Split_not_Nil: "Split s sep \<noteq> []"
  by (induction s) (auto split: list.splits)

lemma Split_append:
  "sep \<notin> set h \<Longrightarrow> Split (h @ sep # t) sep = h # Split t sep"
  by (induction h) (auto split: list.splits)

lemma Split_hd: "\<exists>rest. Split t sep = takeWhile (\<lambda>c. c \<noteq> sep) t # rest"
  by (induction t) (auto split: list.splits)

lemma Itoa_80: "Itoa 80 = ''80''"
  by (simp add: Itoa_def digits.simps digit_char_def char_of_def bit_iff_odd)

lemma Itoa_9200: "Itoa 9200 = ''9200''"
  by (simp add: Itoa_def digits.simps digit_char_def char_of_def bit_iff_odd)

subsection \<open>The pattern of instance names\<close>

lemma rmatch_Concat_iff:
  "rmatch (Concat r1 r2) s \<longleftrightarrow> (\<exists>u v. s = u @ v \<and> rmatch r1 u \<and> rmatch r2 v)"
proof
  assume "rmatch (Concat r1 r2) s"
  then obtain i where "rmatch r1 (take i s)" "rmatch r2 (drop i s)"
    unfolding rmatch.simps(4) by blast
  moreover have "s = take i s @ drop i s" by simp
  ultimately show "\<exists>u v. s = u @ v \<and> rmatch r1 u \<and> rmatch r2 v" by blast
next
  assume "\<exists>u v. s = u @ v \<and> rmatch r1 u \<and> rmatch r2 v"
  then obtain u v where uv: "s = u @ v" "rmatch r1 u" "rmatch r2 v" by blast
  have "length u \<in> set [0..<Suc (length s)]" using uv(1) by simp
  moreover have "rmatch r1 (take (length u) s) \<and> rmatch r2 (drop (length u) s)"
    using uv by simp
  ultimately show "rmatch (Concat r1 r2) s"
    unfolding rmatch.simps(4) by blast
qed

lemma rmatch_Star_Nil: "rmatch (Star r) []"
  by (subst rmatch.simps(5)) simp

lemma rmatch_digit_range:
  "rmatch (CharRange CHR ''0'' CHR ''9'') s \<longleftrightarrow> (\<exists>d. s = [d] \<and> is_digit d)"
  by (cases s) (auto simp: rmatch.simps(3) is_digit_def)

lemma rmatch_Lit: "rmatch (Lit c) s \<longleftrightarrow> s = [c]"
  by (simp add: rmatch.simps(1))

lemma MatchString_iff:
  "MatchString r s \<longleftrightarrow> (\<exists>a m b. s = a @ m @ b \<and> rmatch r m)"
proof
  assume "MatchString r s"
  then obtain i j where m: "rmatch r (take j (drop i s))"
    unfolding MatchString_def by blast
  have "s = take i s @ take j (drop i s) @ drop j (drop i s)"
    by (simp only: append_take_drop_id)
  with m show "\<exists>a m b. s = a @ m @ b \<and> rmatch r m" by blast
next
  assume "\<exists>a m b. s = a @ m @ b \<and> rmatch r m"
  then obtain a m b where s: "s = a @ m @ b" and m: "rmatch r m" by blast
  have i: "length a \<in> set [0..<Suc (length s)]" using s by simp
  have j: "length m \<in> set [0..<Suc (length s - length a)]" using s by simp
  have "take (length m) (drop (length a) s) = m" using s by simp
  with m have "rmatch r (take (length m) (drop (length a) s))" by simp
  with i j show "MatchString r s" unfolding MatchString_def by blast
qed

lemma MatchString_instancePattern:
  "MatchString instancePattern s \<longleftrightarrow> (\<exists>a d b. s = a @ CHR ''_'' # d # b \<and> is_digit d)"
proof
  assume "MatchString instancePattern s"
  then obtain a m b where s: "s = a @ m @ b" and m: "rmatch instancePattern m"
    by (auto simp: MatchString_iff)
  from m obtain u d w where "m = u @ CHR ''_'' # d # w" "is_digit d"
    by (auto simp: instancePattern_def Plus_def rmatch_Concat_iff rmatch_Lit rmatch_digit_range)
  with s have "s = (a @ u) @ CHR ''_'' # d # (w @ b)" "is_digit d" by simp_all
  then show "\<exists>a d b. s = a @ CHR ''_'' # d # b \<and> is_digit d" by blast
next
  assume "\<exists>a d b. s = a @ CHR ''_'' # d # b \<and> is_digit d"
  then obtain a d b where s: "s = a @ CHR ''_'' # d # b" and d: "is_digit d" by blast
  have "rmatch (Plus (CharRange CHR ''0'' CHR ''9'')) [d]"
    unfolding Plus_def rmatch_Concat_iff
    using d rmatch_Star_Nil rmatch_digit_range by (metis append_Nil2)
  then have "rmatch (Concat (Lit CHR ''_'') (Plus (CharRange CHR ''0'' CHR ''9''))) [CHR ''_'', d]"
    unfolding rmatch_Concat_iff [of "Lit CHR ''_''"] rmatch_Lit
    by (metis append_Cons append_Nil)
  then have "rmatch instancePattern ([] @ [CHR ''_'', d])"
    unfolding instancePattern_def rmatch_Concat_iff [of "Star AnyNotNL"]
    using rmatch_Star_Nil by blast
  moreover have "s = a @ [CHR ''_'', d] @ b" using s by simp
  ultimately show "MatchString instancePattern s"
    unfolding MatchString_iff by (metis append_Nil)
qed

subsection \<open>The external check\<close>

lemma failedDials_Suc:
  "failedDials address (Suc k) = failedDials address k @ [DialContext address, Sleep 2000]"
proof -
  have "replicate (Suc k) [DialContext address, Sleep 2000]
        = replicate k [DialContext address, Sleep 2000] @ [[DialContext address, Sleep 2000]]"
    by (simp add: replicate_append_same)
  then show ?thesis
    unfolding failedDials_def by (simp only: concat_append) simp
qed

lemma failedDials_0: "failedDials address 0 = []"
  by (simp add: failedDials_def)

lemma externalCheck_refused:
  "onDialContext w (tr @ [DialContext address]) \<noteq> None \<Longrightarrow>
     externalCheck w address tr = externalCheck w address (tr @ [DialContext address, Sleep 2000])"
  by (subst externalCheck.simps) (auto split: option.splits)

lemma externalCheck_accepted:
  "onDialContext w (tr @ [DialContext address]) = None \<Longrightarrow>
     externalCheck w address tr = Some (tr @ [DialContext address, ConnClose address])"
  by (subst externalCheck.simps) simp

lemma externalCheck_skip:
  "(\<forall>j<k. onDialContext w (tr @ failedDials address j @ [DialContext address]) \<noteq> None) \<Longrightarrow>
     externalCheck w address tr = externalCheck w address (tr @ failedDials address k)"
proof (induction k)
  case 0
  show ?case by (simp add: failedDials_0)
next
  case (Suc k)
  then have ih: "externalCheck w address tr = externalCheck w address (tr @ failedDials address k)"
    by simp
  have "onDialContext w ((tr @ failedDials address k) @ [DialContext address]) \<noteq> None"
    using Suc.prems by simp
  from externalCheck_refused [OF this] ih show ?case
    by (simp add: failedDials_Suc)
qed

lemma externalCheck_success:
  assumes "\<forall>j<k. onDialContext w (tr @ failedDials address j @ [DialContext address]) \<noteq> None"
      and "onDialContext w (tr @ failedDials address k @ [DialContext address]) = None"
  shows "externalCheck w address tr
           = Some (tr @ failedDials address k @ [DialContext address, ConnClose address])"
proof -
  have "onDialContext w ((tr @ failedDials address k) @ [DialContext address]) = None"
    using assms(2) by simp
  from externalCheck_accepted [OF this] externalCheck_skip [OF assms(1)]
  show ?thesis by simp
qed

lemma externalCheck_returns:
  assumes ret: "externalCheck w address tr = Some y"
  shows "\<exists>j. onDialContext w (tr @ failedDials address j @ [DialContext address]) = None"
proof (rule externalCheck.raw_induct
    [where P = "\<lambda>w address tr y.
        \<exists>j. onDialContext w (tr @ failedDials address j @ [DialContext address]) = None",
      OF _ ret])
  fix f w address tr y
  assume ih: "\<And>w address tr y. f w address tr = Some y \<Longrightarrow>
      \<exists>j. onDialContext w (tr @ failedDials address j @ [DialContext address]) = None"
    and eq: "(case onDialContext w (tr @ [DialContext address]) of
                None \<Rightarrow> Some (tr @ [DialContext address, ConnClose address])
              | Some err \<Rightarrow> f w address (tr @ [DialContext address, Sleep 2000])) = Some y"
  show "\<exists>j. onDialContext w (tr @ failedDials address j @ [DialContext address]) = None"
  proof (cases "onDialContext w (tr @ [DialContext address])")
    case None
    then have "onDialContext w (tr @ failedDials address 0 @ [DialContext address]) = None"
      by (simp add: failedDials_0)
    then show ?thesis by blast
  next
    case (Some err)
    with eq have "f w address (tr @ [DialContext address, Sleep 2000]) = Some y"
      by simp
    from ih [OF this] obtain j where
      "onDialContext w ((tr @ [DialContext address, Sleep 2000]) @ failedDials address j
         @ [DialContext address]) = None"
      by blast
    then have "onDialContext w (tr @ failedDials address (Suc j) @ [DialContext address]) = None"
      by (simp add: failedDials_def)
    then show ?thesis by blast
  qed
qed

lemma externalCheck_never:
  assumes "\<forall>j. onDialContext w (tr @ failedDials address j @ [DialContext address]) \<noteq> None"
  shows "externalCheck w address tr = None"
proof (rule ccontr)
  assume "externalCheck w address tr \<noteq> None"
  then obtain y where "externalCheck w address tr = Some y" by auto
  from externalCheck_returns [OF this] assms show False by blast
qed

subsection \<open>The timeout of the setup and the readiness loops\<close>

lemma bindPortList_retime:
  "bindPortList t portList = map_sum id (map (retime t)) (bindPortList t0 portList)"
  by (induction portList) (auto simp: retime_def split: sum.splits)

lemma bindServices_retime:
  "bindServices t services
     = map_sum id (map (\<lambda>(service, portList). (service, map (retime t) portList)))
         (bindServices t0 services)"
proof (induction services)
  case Nil
  show ?case by simp
next
  case (Cons a services)
  obtain service content where a: "a = (service, content)" by (cases a)
  show ?case
    using Cons bindPortList_retime [of t _ t0]
    by (auto simp: a split: iface.splits option.splits sum.splits)
qed

lemma checkPort_retime:
  "checkPort w service ip container (retime t strategy) containerPort tr
     = checkPort w service ip container strategy containerPort tr"
  by (simp add: checkPort_def retime_def)

lemma containerPortLoop_retime:
  "containerPortLoop w service ip container (retime t strategy) containerPorts tr
     = containerPortLoop w service ip container strategy containerPorts tr"
proof (induction containerPorts)
  case Nil
  show ?case by simp
next
  case (Cons containerPort containerPorts)
  have e: "expectPort (retime t strategy) = expectPort strategy" by (simp add: retime_def)
  show ?case using Cons by (simp add: e checkPort_retime)
qed

lemma portListLoop_retime:
  "portListLoop w service ip container (map (retime t) portList) tr
     = portListLoop w service ip container portList tr"
  by (induction portList arbitrary: tr)
     (auto simp: containerPortLoop_retime split: option.splits prod.splits)

lemma serviceBody_retime:
  "serviceBody w ip service (map (retime t) portList) tr = serviceBody w ip service portList tr"
  by (simp add: serviceBody_def portListLoop_retime split: prod.splits sum.splits option.splits)

lemma serviceLoop_retime:
  "serviceLoop w ip (map (\<lambda>(service, portList). (service, map (retime t) portList)) serviceWithPorts) tr
     = serviceLoop w ip serviceWithPorts tr"
  by (induction serviceWithPorts arbitrary: tr)
     (auto simp: serviceBody_retime split: option.splits prod.splits)

lemma ComposeSetup_timeout:
  "(ComposeSetup w (setup\<lparr>Timeout := t\<rparr>) tr = None) = (ComposeSetup w setup tr = None)"
proof -
  have b: "bindWaitPort w (setup\<lparr>Timeout := t\<rparr>)
           = map_sum id (map (\<lambda>(service, portList).
                (service, map (retime (waitTimeoutOf w t)) portList)))
               (bindWaitPort w setup)"
    unfolding bindWaitPort_def using bindServices_retime by simp
  show ?thesis
    unfolding ComposeSetup_def b
    by (cases "bindWaitPort w setup")
       (auto simp: Let_def serviceLoop_retime split: option.splits prod.splits sum.splits)
qed

subsection \<open>Evaluating the compose scenario\<close>

lemma getInstanceName_plain: "CHR ''_'' \<notin> set s \<Longrightarrow> getInstanceName s = s @ ''_1''"
proof -
  assume a: "CHR ''_'' \<notin> set s"
  have "\<not> MatchString instancePattern s"
    unfolding MatchString_instancePattern using a by auto
  then show ?thesis by (simp add: getInstanceName_def)
qed

lemma Itoa_32001: "Itoa 32001 = ''32001''"
  by (simp add: Itoa_def digits.simps digit_char_def char_of_def bit_iff_odd)

lemmas compose_steps =
  ComposeSetup_def inAContainer_def getDefaultNetwork_def getGatewayIP_def GetNetwork_def valueOf_def
  bindWaitPort_def waitTimeoutOf_def serviceBody_def findContainer_def exportComposeEnv_def
  Ports'_def inspectContainer_def checkPort_def MappedPort_def Exec_def
  SplitProtoPort_def Proto_def PortOf_def JoinHostPort_def
  getInstanceName_plain Itoa_9200 Itoa_32001 Let_def

lemmas compose_eval = compose_steps externalCheck.simps internalCheck.simps execPoll.simps

lemmas quiet_eval =
  quietWorld_def esSetup_def esServices_def esContainer_def esInspect_def bridgeNetwork_def

lemma bind_es:
  "bindWaitPort quietWorld esSetup = Inr [(''es'', [\<lparr>expectPort = 9200, startupTimeout = 60000000000\<rparr>])]"
  by (simp add: compose_eval quiet_eval)

text \<open>
  The compose scenario from end to end: \<^verbatim>\<open>ComposeSetup\<close> returns nil, and on the way
  it sets \<^verbatim>\<open>es_host\<close> to 172.17.0.1 and \<^verbatim>\<open>es_9200\<close> to 32001.
\<close>

theorem ComposeSetup_scenario:
  "ComposeSetup quietWorld esSetup [] =
     Some (None,
       [NewClientWithOpts, Stat ''/.dockerenv'', NetworkList, NetworkList,
          NetworkInspect ''bridge'', NewLocalDockerCompose [''docker-compose.yml''] ''e2e'',
        ComposeInvoke [''up'', ''-d''],
        ContainerList ''e2e_es_1'',
        Setenv ''es_host'' ''172.17.0.1'',
        ContainerInspect ''c0ffee'', ContainerInspect ''c0ffee'', ContainerInspect ''c0ffee'',
        DialContext ''172.17.0.1:32001'', ConnClose ''172.17.0.1:32001'',
        ContainerExecCreate ''c0ffee'' [''/bin/sh'', ''-c'', buildInternalCheckCommand 9200],
        ContainerExecStart ''exec0'', ContainerExecInspect ''exec0'',
        Setenv ''es_9200'' ''32001'',
        RunStepsAndWait (Some []) 60 False])"
  by (simp add: compose_eval quiet_eval)

subsection \<open>Evaluating the cluster scenario\<close>

lemma Atoi_8080: "Atoi ''8080'' = Inr 8080"
  by (simp add: Atoi_def ParseInt_def is_digit_def digit_val_def)

lemma Itoa_40000: "Itoa 40000 = ''40000''"
  by (simp add: Itoa_def digits.simps digit_char_def char_of_def bit_iff_odd)

lemmas kind_eval =
  exposeKindService_def exposePerKindService_def exportKindEnv_def buildKindPort_def
  buildKindPortFor_def segment1_def segment0_def Contains_def invoke_def hostKey_def portKey_def
  resourceName_def Atoi_8080 Itoa_40000 Let_def quietCluster_def freshState_def threeExports_def

subsection \<open>Port specifications\<close>

lemma colon_not_digit: "is_digit c \<Longrightarrow> c \<noteq> CHR '':''"
  by (auto simp: is_digit_def)

lemma colon_notin_Itoa: "CHR '':'' \<notin> set (Itoa i)"
proof
  assume "CHR '':'' \<in> set (Itoa i)"
  then have "CHR '':'' \<in> set (digits (nat (- i))) \<or> CHR '':'' \<in> set (digits (nat i))"
    by (auto simp: Itoa_def split: if_splits)
  then show False
    using digits_all_digit colon_not_digit by blast
qed

lemma getExpectPort_string_plain:
  "CHR '':'' \<notin> set s \<Longrightarrow> getExpectPort (VString s) = Atoi s"
  by (simp add: Split_no_sep)

lemma getExpectPort_string_colon:
  assumes "CHR '':'' \<notin> set host"
  shows "getExpectPort (VString (host @ '':'' @ rest)) = Atoi (takeWhile (\<lambda>c. c \<noteq> CHR '':'') rest)"
proof -
  obtain more where "Split rest CHR '':'' = takeWhile (\<lambda>c. c \<noteq> CHR '':'') rest # more"
    using Split_hd by blast
  then show ?thesis
    using assms by (simp add: Split_append)
qed

lemma getExpectPort_other:
  "(\<forall>n. v \<noteq> VInt n) \<Longrightarrow> (\<forall>s. v \<noteq> VString s)
     \<Longrightarrow> getExpectPort v = Inl (ErrorfValue ''unknown port information: '' v)"
  by (cases v) simp_all

text \<open>
  C8. \<^verbatim>\<open>getExpectPort\<close> extracts the container side of a declared port. An integer
  is returned as it is. Of a string with a colon it parses the segment after the first
  colon (up to the next colon, if there is one), so \<^verbatim>\<open>"host:container"\<close> with a
  decimal container part yields the number of that part. A string without colon is parsed
  as a whole, so a plain decimal string yields its number. Every value that is neither an
  integer nor a string is the error \<^verbatim>\<open>unknown port information\<close>.
\<close>

theorem getExpectPort_container_port:
  "getExpectPort (VInt n) = Inr n
   \<and> (CHR '':'' \<notin> set host \<longrightarrow>
        getExpectPort (VString (host @ '':'' @ rest)) = Atoi (takeWhile (\<lambda>c. c \<noteq> CHR '':'') rest))
   \<and> (CHR '':'' \<notin> set host \<and> - (2 ^ 63) \<le> i \<and> i < 2 ^ 63 \<longrightarrow>
        getExpectPort (VString (host @ '':'' @ Itoa i)) = Inr i)
   \<and> (CHR '':'' \<notin> set s \<longrightarrow> getExpectPort (VString s) = Atoi s)
   \<and> (- (2 ^ 63) \<le> i \<and> i < 2 ^ 63 \<longrightarrow> getExpectPort (VString (Itoa i)) = Inr i)
   \<and> ((\<forall>n. v \<noteq> VInt n) \<and> (\<forall>s. v \<noteq> VString s) \<longrightarrow>
        getExpectPort v = Inl (ErrorfValue ''unknown port information: '' v))"
proof -
  have tw: "takeWhile (\<lambda>c. c \<noteq> CHR '':'') (Itoa i) = Itoa i"
    using colon_notin_Itoa [of i] by (auto simp: takeWhile_eq_all_conv)
  have c1: "getExpectPort (VInt n) = Inr n" by simp
  have c2: "CHR '':'' \<notin> set host \<longrightarrow>
        getExpectPort (VString (host @ '':'' @ rest)) = Atoi (takeWhile (\<lambda>c. c \<noteq> CHR '':'') rest)"
    using getExpectPort_string_colon by blast
  have c3: "CHR '':'' \<notin> set host \<and> - (2 ^ 63) \<le> i \<and> i < 2 ^ 63 \<longrightarrow>
        getExpectPort (VString (host @ '':'' @ Itoa i)) = Inr i"
  proof (intro impI)
    assume a: "CHR '':'' \<notin> set host \<and> - (2 ^ 63) \<le> i \<and> i < 2 ^ 63"
    then have h: "CHR '':'' \<notin> set host" and lo: "- (2 ^ 63) \<le> i" and hi: "i < 2 ^ 63"
      by simp_all
    show "getExpectPort (VString (host @ '':'' @ Itoa i)) = Inr i"
      unfolding getExpectPort_string_colon [OF h] tw by (rule Atoi_Itoa [OF lo hi])
  qed
  have c4: "CHR '':'' \<notin> set s \<longrightarrow> getExpectPort (VString s) = Atoi s"
    using getExpectPort_string_plain by blast
  have c5: "- (2 ^ 63) \<le> i \<and> i < 2 ^ 63 \<longrightarrow> getExpectPort (VString (Itoa i)) = Inr i"
  proof (intro impI)
    assume a: "- (2 ^ 63) \<le> i \<and> i < 2 ^ 63"
    then have lo: "- (2 ^ 63) \<le> i" and hi: "i < 2 ^ 63"
      by simp_all
    show "getExpectPort (VString (Itoa i)) = Inr i"
      unfolding getExpectPort_string_plain [OF colon_notin_Itoa] by (rule Atoi_Itoa [OF lo hi])
  qed
  have c6: "(\<forall>n. v \<noteq> VInt n) \<and> (\<forall>s. v \<noteq> VString s) \<longrightarrow>
        getExpectPort v = Inl (ErrorfValue ''unknown port information: '' v)"
    using getExpectPort_other by blast
  show ?thesis using c1 c2 c3 c4 c5 c6 by blast
qed

text \<open>The declarations \<^verbatim>\<open>9200\<close>, \<^verbatim>\<open>"8080:80"\<close>, \<^verbatim>\<open>"9200"\<close> and \<^verbatim>\<open>true\<close>.\<close>

theorem getExpectPort_container_port_witness:
  "getExpectPort (VInt 9200) = Inr 9200
   \<and> getExpectPort (VString ''8080:80'') = Inr 80
   \<and> getExpectPort (VString ''9200'') = Inr 9200
   \<and> getExpectPort (VBool True) = Inl (ErrorfValue ''unknown port information: '' (VBool True))"
proof -
  have a: "getExpectPort (VString (''8080'' @ '':'' @ Itoa 80)) = Inr 80"
    using getExpectPort_container_port [of 9200 "''8080''" "[]" 80 "[]" "VBool True"] by simp
  have b: "getExpectPort (VString (Itoa 9200)) = Inr 9200"
    using getExpectPort_container_port [of 9200 "''8080''" "[]" 9200 "[]" "VBool True"] by simp
  have c: "getExpectPort (VBool True) = Inl (ErrorfValue ''unknown port information: '' (VBool True))"
    using getExpectPort_container_port [of 9200 "''8080''" "[]" 80 "[]" "VBool True"] by simp
  show ?thesis using a b c by (simp add: Itoa_80 Itoa_9200)
qed

subsection \<open>Names of published resources\<close>

lemma ReplaceAll_map: "ReplaceAll s old new = map (\<lambda>c. if c = old then new else c) s"
  by (induction s) simp_all

text \<open>
  C9. The name under which \<^verbatim>\<open>exposePerKindService\<close> publishes a resource has every
  \<^verbatim>\<open>/\<close> and every \<^verbatim>\<open>-\<close> replaced by \<^verbatim>\<open>_\<close>; sanitizing twice is
  sanitizing once; the keys of the resource \<^verbatim>\<open>app/my-service\<close> begin with
  \<^verbatim>\<open>app_my_service\<close>; and exposing that resource with the port 8080 sets
  \<^verbatim>\<open>app_my_service_host\<close> and \<^verbatim>\<open>app_my_service_8080\<close>.
\<close>

theorem resourceName_idempotent:
  "resourceName x = map (\<lambda>c. if c = CHR ''/'' \<or> c = CHR ''-'' then CHR ''_'' else c) x
   \<and> resourceName (resourceName x) = resourceName x
   \<and> resourceName ''app/my-service'' = ''app_my_service''
   \<and> hostKey ''app/my-service'' = ''app_my_service_host''
   \<and> portKey ''app/my-service'' input = ''app_my_service_'' @ input
   \<and> exposePerKindService quietCluster myService 60000000000 freshState
       = Some (None, myServiceState)"
proof -
  have twice: "resourceName (resourceName x) = resourceName x"
    by (simp add: resourceName_def ReplaceAll_map)
  have run: "exposePerKindService quietCluster myService 60000000000 freshState
       = Some (None, myServiceState)"
    by (simp add: kind_eval myService_def myServiceState_def)
  show ?thesis
    using twice run by (simp add: resourceName_def hostKey_def portKey_def ReplaceAll_map)
qed

subsection \<open>Names of container instances\<close>

text \<open>
  C10. \<^verbatim>\<open>getInstanceName\<close> leaves a service name unchanged when the pattern
  \<^verbatim>\<open>.*_[0-9]+\<close> matches somewhere in it, which is the case exactly when the name
  has an underscore directly followed by a digit, and appends \<^verbatim>\<open>_1\<close> otherwise;
  applying it twice is applying it once. The container of a service is looked up under
  the identity of the run, an underscore and this name: when the daemon lists no such
  container, that is the name in the error.
\<close>

theorem getInstanceName_idempotent:
  "(MatchString instancePattern s \<longleftrightarrow> (\<exists>a d b. s = a @ CHR ''_'' # d # b \<and> is_digit d))
   \<and> getInstanceName s = (if MatchString instancePattern s then s else s @ ''_1'')
   \<and> getInstanceName (getInstanceName s) = getInstanceName s
   \<and> (onContainerList w (tr @ [ContainerList (GetIdentity w @ ''_'' @ getInstanceName s)]) = Inr [] \<longrightarrow>
        serviceBody w ip s portList tr
          = Some (Some (Errorf (''could not found container: '' @ GetIdentity w @ ''_''
                                  @ getInstanceName s)),
                  tr @ [ContainerList (GetIdentity w @ ''_'' @ getInstanceName s)]))"
proof -
  have one: "is_digit CHR ''1''" by (simp add: is_digit_def)
  have "s @ ''_1'' = s @ CHR ''_'' # CHR ''1'' # []" by simp
  with one have m: "MatchString instancePattern (s @ ''_1'')"
    unfolding MatchString_instancePattern by blast
  have c1: "MatchString instancePattern s \<longleftrightarrow> (\<exists>a d b. s = a @ CHR ''_'' # d # b \<and> is_digit d)"
    by (rule MatchString_instancePattern)
  have c2: "getInstanceName s = (if MatchString instancePattern s then s else s @ ''_1'')"
    by (simp add: getInstanceName_def)
  have c3: "getInstanceName (getInstanceName s) = getInstanceName s"
    using m by (simp add: getInstanceName_def)
  have c4: "onContainerList w (tr @ [ContainerList (GetIdentity w @ ''_'' @ getInstanceName s)]) = Inr [] \<longrightarrow>
        serviceBody w ip s portList tr
          = Some (Some (Errorf (''could not found container: '' @ GetIdentity w @ ''_''
                                  @ getInstanceName s)),
                  tr @ [ContainerList (GetIdentity w @ ''_'' @ getInstanceName s)])"
    by (simp add: serviceBody_def findContainer_def)
  show ?thesis using c1 c2 c3 c4 by blast
qed

text \<open>The services \<^verbatim>\<open>es\<close> and \<^verbatim>\<open>es_2\<close> when no container is found.\<close>

theorem getInstanceName_idempotent_witness:
  "serviceBody noContainerWorld ''172.17.0.1'' ''es'' [] []
     = Some (Some (Errorf ''could not found container: e2e_es_1''), [ContainerList ''e2e_es_1''])
   \<and> serviceBody noContainerWorld ''172.17.0.1'' ''es_2'' [] []
     = Some (Some (Errorf ''could not found container: e2e_es_2''), [ContainerList ''e2e_es_2''])
   \<and> getInstanceName ''es'' = ''es_1''
   \<and> getInstanceName ''es_2'' = ''es_2''"
proof -
  have two: "is_digit CHR ''2''" by (simp add: is_digit_def)
  have "''es_2'' = ''es'' @ CHR ''_'' # CHR ''2'' # []" by simp
  with two have "\<exists>a d b. ''es_2'' = a @ CHR ''_'' # d # b \<and> is_digit d" by blast
  with getInstanceName_idempotent [of "''es_2''"]
  have n2: "getInstanceName ''es_2'' = ''es_2''" by simp
  have "\<not> (\<exists>a d b. ''es'' = a @ CHR ''_'' # d # b \<and> is_digit d)"
  proof
    assume "\<exists>a d b. ''es'' = a @ CHR ''_'' # d # b \<and> is_digit d"
    then obtain a d b where "''es'' = a @ CHR ''_'' # d # b" by blast
    then have "CHR ''_'' \<in> set ''es''" by (metis in_set_conv_decomp)
    then show False by simp
  qed
  with getInstanceName_idempotent [of "''es''"]
  have n1: "getInstanceName ''es'' = ''es_1''" by simp
  have l: "onContainerList noContainerWorld tr = Inr []" for tr
    by (simp add: noContainerWorld_def)
  have i: "GetIdentity noContainerWorld = ''e2e''"
    by (simp add: noContainerWorld_def quietWorld_def)
  from getInstanceName_idempotent
         [where s = "''es''" and w = noContainerWorld and tr = "[]" and ip = "''172.17.0.1''"
            and portList = "[]"]
  have b1: "serviceBody noContainerWorld ''172.17.0.1'' ''es'' [] []
     = Some (Some (Errorf ''could not found container: e2e_es_1''), [ContainerList ''e2e_es_1''])"
    by (simp add: l i n1)
  from getInstanceName_idempotent
         [where s = "''es_2''" and w = noContainerWorld and tr = "[]" and ip = "''172.17.0.1''"
            and portList = "[]"]
  have b2: "serviceBody noContainerWorld ''172.17.0.1'' ''es_2'' [] []
     = Some (Some (Errorf ''could not found container: e2e_es_2''), [ContainerList ''e2e_es_2''])"
    by (simp add: l i n2)
  show ?thesis using b1 b2 n1 n2 by blast
qed

subsection \<open>The cluster backend without steps\<close>

text \<open>
  C2. When the setup names a definition file and its list of steps is nil,
  \<^verbatim>\<open>KindSetup\<close> returns nil; it has stored the path in \<^verbatim>\<open>kindConfigPath\<close>
  and made no call: no cluster is created, no image imported, nothing else done outside.
\<close>

theorem KindSetup_without_steps:
  "File setup \<noteq> [] \<Longrightarrow> Steps setup = None \<Longrightarrow>
     KindSetup kw setup st = Some (None, st\<lparr>kindConfigPath := File setup\<rparr>)
     \<and> calls (st\<lparr>kindConfigPath := File setup\<rparr>) = calls st"
  by (simp add: KindSetup_def)

text \<open>A setup with a file, an image and an exposure but no steps, in a fresh process.\<close>

theorem KindSetup_without_steps_witness:
  "File setupWithoutSteps \<noteq> [] \<and> Steps setupWithoutSteps = None
   \<and> KindSetup quietCluster setupWithoutSteps freshState
       = Some (None, freshState\<lparr>kindConfigPath := ''kind.yaml''\<rparr>)
   \<and> calls (freshState\<lparr>kindConfigPath := ''kind.yaml''\<rparr>) = []"
  using KindSetup_without_steps [of setupWithoutSteps quietCluster freshState]
  by (simp add: setupWithoutSteps_def freshState_def)

subsection \<open>Exclusive selectors of a wait\<close>

text \<open>
  C7. A wait whose resource contains \<^verbatim>\<open>/\<close> and whose label selector is not empty
  is rejected by \<^verbatim>\<open>getWaitOptions\<close> with an error, before any call is made.
  Every other wait passes this check: the function goes on to open the null device, and
  when the resource is not empty it hands the flags to \<^verbatim>\<open>ToOptions\<close> and returns
  what that returns.
\<close>

theorem getWaitOptions_selector_exclusivity:
  "(Contains (Wait.Resource wait) CHR ''/'' \<and> LabelSelector wait \<noteq> [] \<longrightarrow>
      getWaitOptions kw wait tr =
        (Inl (Errorf (''when passing resource.group/resource.name in Resource, '' @
                      ''the labelSelector can not be set at the same time'')), tr))
   \<and> (\<not> (Contains (Wait.Resource wait) CHR ''/'' \<and> LabelSelector wait \<noteq> []) \<longrightarrow>
        (\<exists>rest. snd (getWaitOptions kw wait tr) = tr @ OpenDevNull # rest))
   \<and> (\<not> (Contains (Wait.Resource wait) CHR ''/'' \<and> LabelSelector wait \<noteq> [])
        \<and> Wait.Resource wait \<noteq> [] \<longrightarrow>
        (\<exists>flags. getWaitOptions kw wait tr =
           (onToOptions kw (tr @ [OpenDevNull, ToOptions flags [Wait.Resource wait]]),
            tr @ [OpenDevNull, ToOptions flags [Wait.Resource wait]])))"
  by (auto simp: getWaitOptions_def Let_def split: sum.splits)

text \<open>A wait with both selectors, one with a named resource only, one with a label selector only.\<close>

theorem getWaitOptions_selector_exclusivity_witness:
  "getWaitOptions quietCluster waitBoth [] =
     (Inl (Errorf (''when passing resource.group/resource.name in Resource, '' @
                   ''the labelSelector can not be set at the same time'')), [])
   \<and> (\<exists>rest. snd (getWaitOptions quietCluster waitNamed []) = [] @ OpenDevNull # rest)
   \<and> (\<exists>rest. snd (getWaitOptions quietCluster waitLabelled []) = [] @ OpenDevNull # rest)"
  using getWaitOptions_selector_exclusivity [of waitBoth quietCluster "[]"]
    getWaitOptions_selector_exclusivity [of waitNamed quietCluster "[]"]
    getWaitOptions_selector_exclusivity [of waitLabelled quietCluster "[]"]
  by (simp add: waitBoth_def waitNamed_def waitLabelled_def Contains_def)

subsection \<open>The external check has no bound\<close>

lemma sleeps_failedDials:
  "length (filter (\<lambda>c. c = Sleep 2000) (failedDials address j)) = j"
  by (induction j) (simp_all add: failedDials_def)

lemma externalCheck_always_refused:
  "\<forall>tr'. onDialContext w tr' \<noteq> None \<Longrightarrow> externalCheck w address tr = None"
  by (rule externalCheck_never) simp

text \<open>
  C5, as the code has it. The external check dials, sleeps two seconds after every refused
  dial and dials again, without a cap on the attempts: when the first \<open>k\<close> dials are
  refused and the next succeeds it returns after exactly \<open>k\<close> sleeps. Nothing else
  bounds it. The dial runs under \<^verbatim>\<open>context.Background()\<close> and the loop reads no
  timeout: when no dial ever succeeds the check never returns, and whether
  \<^verbatim>\<open>ComposeSetup\<close> returns at all does not depend on the timeout of the setup.
\<close>

theorem externalCheck_unbounded:
  "((\<forall>j<k. onDialContext w (tr @ failedDials address j @ [DialContext address]) \<noteq> None)
      \<and> onDialContext w (tr @ failedDials address k @ [DialContext address]) = None \<longrightarrow>
      externalCheck w address tr
        = Some (tr @ failedDials address k @ [DialContext address, ConnClose address]))
   \<and> ((\<forall>j. onDialContext w (tr @ failedDials address j @ [DialContext address]) \<noteq> None) \<longrightarrow>
        externalCheck w address tr = None)
   \<and> ((ComposeSetup w (conf\<lparr>Timeout := t\<rparr>) tr0 = None) = (ComposeSetup w conf tr0 = None))"
proof (intro conjI impI)
  assume "(\<forall>j<k. onDialContext w (tr @ failedDials address j @ [DialContext address]) \<noteq> None)
      \<and> onDialContext w (tr @ failedDials address k @ [DialContext address]) = None"
  then show "externalCheck w address tr
        = Some (tr @ failedDials address k @ [DialContext address, ConnClose address])"
    using externalCheck_success by blast
next
  assume "\<forall>j. onDialContext w (tr @ failedDials address j @ [DialContext address]) \<noteq> None"
  then show "externalCheck w address tr = None"
    by (rule externalCheck_never)
next
  show "(ComposeSetup w (conf\<lparr>Timeout := t\<rparr>) tr0 = None) = (ComposeSetup w conf tr0 = None)"
    by (rule ComposeSetup_timeout)
qed

text \<open>The scenario with two refused dials, and the one in which every dial is refused.\<close>

theorem externalCheck_unbounded_witness:
  "externalCheck slowWorld ''172.17.0.1:32001'' []
     = Some [DialContext ''172.17.0.1:32001'', Sleep 2000,
             DialContext ''172.17.0.1:32001'', Sleep 2000,
             DialContext ''172.17.0.1:32001'', ConnClose ''172.17.0.1:32001'']
   \<and> externalCheck refusingWorld ''172.17.0.1:32001'' [] = None
   \<and> (ComposeSetup refusingWorld (esSetup\<lparr>Timeout := 1\<rparr>) [] = None)
       = (ComposeSetup refusingWorld esSetup [] = None)"
proof -
  let ?a = "''172.17.0.1:32001''"
  have slow: "onDialContext slowWorld ([] @ failedDials ?a j @ [DialContext ?a])
                = (if j < 2 then Some (ApiError ''connection refused'') else None)" for j
    by (simp add: slowWorld_def sleeps_failedDials)
  have h1: "\<forall>j<2. onDialContext slowWorld ([] @ failedDials ?a j @ [DialContext ?a]) \<noteq> None"
    by (simp only: slow) simp
  have h2: "onDialContext slowWorld ([] @ failedDials ?a 2 @ [DialContext ?a]) = None"
    by (simp only: slow) simp
  have h3: "\<forall>j. onDialContext refusingWorld ([] @ failedDials ?a j @ [DialContext ?a]) \<noteq> None"
    by (simp add: refusingWorld_def)
  have two: "failedDials ?a 2 = [DialContext ?a, Sleep 2000, DialContext ?a, Sleep 2000]"
    by (simp add: failedDials_def numeral_2_eq_2)
  from externalCheck_unbounded [where k = 2 and w = slowWorld and tr = "[]" and address = ?a] h1 h2
  have a: "externalCheck slowWorld ?a [] = Some ([] @ failedDials ?a 2 @ [DialContext ?a, ConnClose ?a])"
    by blast
  from externalCheck_unbounded
         [where w = refusingWorld and tr = "[]" and address = ?a and t = 1 and tr0 = "[]"
            and conf = esSetup] h3
  have b: "externalCheck refusingWorld ?a [] = None"
    and c: "(ComposeSetup refusingWorld (esSetup\<lparr>Timeout := 1\<rparr>) [] = None)
            = (ComposeSetup refusingWorld esSetup [] = None)"
    by blast+
  show ?thesis using a b c by (simp add: two)
qed

text \<open>
  Against the sentence of the specification that the setup ends once the timeout has
  elapsed: with a timeout of 60 seconds and a port on which nothing ever listens,
  \<^verbatim>\<open>ComposeSetup\<close> never returns.
\<close>

theorem ComposeSetup_never_returns:
  "Timeout esSetup = 60 \<and> ComposeSetup refusingWorld esSetup [] = None"
  by (simp add: compose_steps externalCheck_always_refused refusingWorld_def quiet_eval)

subsection \<open>The internal check and the exit codes\<close>

lemma internalCheck_ready:
  "Exec w c [''/bin/sh'', ''-c'', command] tr = Some (Inr 0, tr1) \<Longrightarrow>
     internalCheck w c command tr = Some (None, tr1)"
  by (subst internalCheck.simps) simp

lemma internalCheck_fatal:
  "Exec w c [''/bin/sh'', ''-c'', command] tr = Some (Inr 126, tr1) \<Longrightarrow>
     internalCheck w c command tr = Some (Some (Errorf ''/bin/sh command not executable''), tr1)"
  by (subst internalCheck.simps) simp

lemma internalCheck_retry:
  "Exec w c [''/bin/sh'', ''-c'', command] tr = Some (Inr code, tr1) \<Longrightarrow> code \<noteq> 0 \<Longrightarrow> code \<noteq> 126 \<Longrightarrow>
     internalCheck w c command tr = internalCheck w c command tr1"
  by (subst internalCheck.simps) simp

lemma internalCheck_error:
  "Exec w c [''/bin/sh'', ''-c'', command] tr = Some (Inl err, tr1) \<Longrightarrow>
     internalCheck w c command tr = Some (Some (ErrorfWrap ''host port waiting failed: '' err), tr1)"
  by (subst internalCheck.simps) simp

lemma execRounds_Cons:
  "execRounds w c command (code # codes) tr = Some tr' \<Longrightarrow>
     \<exists>tr1. Exec w c [''/bin/sh'', ''-c'', command] tr = Some (Inr code, tr1)
           \<and> execRounds w c command codes tr1 = Some tr'"
  by (auto split: option.splits sum.splits prod.splits if_splits)

lemma internalCheck_rounds:
  "execRounds w c command codes tr = Some tr' \<Longrightarrow>
   \<forall>code \<in> set codes. code \<noteq> 0 \<and> code \<noteq> 126 \<Longrightarrow>
     internalCheck w c command tr = internalCheck w c command tr'"
proof (induction codes arbitrary: tr)
  case Nil
  then show ?case by simp
next
  case (Cons code codes)
  from execRounds_Cons [OF Cons.prems(1)] obtain tr1 where
    e: "Exec w c [''/bin/sh'', ''-c'', command] tr = Some (Inr code, tr1)"
    and r: "execRounds w c command codes tr1 = Some tr'" by blast
  have "code \<noteq> 0" "code \<noteq> 126" using Cons.prems(2) by simp_all
  from internalCheck_retry [OF e this]
  have "internalCheck w c command tr = internalCheck w c command tr1" .
  also have "\<dots> = internalCheck w c command tr'"
    using Cons.IH [OF r] Cons.prems(2) by simp
  finally show ?case .
qed

lemma execRounds_append:
  "execRounds w c command (xs @ ys) tr =
     (case execRounds w c command xs tr of
        None \<Rightarrow> None
      | Some tr1 \<Rightarrow> execRounds w c command ys tr1)"
  by (induction xs arbitrary: tr) (auto split: option.splits sum.splits prod.splits)

lemma execRounds_last:
  "execRounds w c command (codes @ [code]) tr = Some tr' \<Longrightarrow>
     \<exists>tr1. execRounds w c command codes tr = Some tr1
           \<and> Exec w c [''/bin/sh'', ''-c'', command] tr1 = Some (Inr code, tr')"
proof -
  assume a: "execRounds w c command (codes @ [code]) tr = Some tr'"
  then obtain tr1 where r: "execRounds w c command codes tr = Some tr1"
    and l: "execRounds w c command [code] tr1 = Some tr'"
    unfolding execRounds_append by (cases "execRounds w c command codes tr") simp_all
  from execRounds_Cons [OF l] obtain tr2 where
    "Exec w c [''/bin/sh'', ''-c'', command] tr1 = Some (Inr code, tr2)"
    "execRounds w c command [] tr2 = Some tr'" by blast
  then have "Exec w c [''/bin/sh'', ''-c'', command] tr1 = Some (Inr code, tr')" by simp
  with r show ?thesis by blast
qed

text \<open>
  C3. In the internal check an exec that exits with 0 ends the loop: the port is ready.
  An exec that exits with 126 makes \<^verbatim>\<open>ComposeSetup\<close> return the error
  \<^verbatim>\<open>/bin/sh command not executable\<close> at once; the run ends with that exec, so
  nothing is retried. Every other exit code leads to the next exec. For a sequence of
  exit codes: as long as the codes are neither 0 nor 126 the loop goes on, and it ends
  with the first 0 or 126.
\<close>

theorem internalCheck_exit_codes:
  "(Exec w c [''/bin/sh'', ''-c'', command] tr = Some (Inr 0, tr1) \<longrightarrow>
      internalCheck w c command tr = Some (None, tr1))
   \<and> (Exec w c [''/bin/sh'', ''-c'', command] tr = Some (Inr 126, tr1) \<longrightarrow>
        internalCheck w c command tr
          = Some (Some (Errorf ''/bin/sh command not executable''), tr1))
   \<and> (Exec w c [''/bin/sh'', ''-c'', command] tr = Some (Inr code, tr1) \<and> code \<noteq> 0 \<and> code \<noteq> 126 \<longrightarrow>
        internalCheck w c command tr = internalCheck w c command tr1)
   \<and> ((\<forall>code \<in> set codes. code \<noteq> 0 \<and> code \<noteq> 126)
        \<and> execRounds w c command (codes @ [0]) tr = Some tr' \<longrightarrow>
        internalCheck w c command tr = Some (None, tr'))
   \<and> ((\<forall>code \<in> set codes. code \<noteq> 0 \<and> code \<noteq> 126)
        \<and> execRounds w c command (codes @ [126]) tr = Some tr' \<longrightarrow>
        internalCheck w c command tr
          = Some (Some (Errorf ''/bin/sh command not executable''), tr'))"
proof (intro conjI impI)
  assume "Exec w c [''/bin/sh'', ''-c'', command] tr = Some (Inr 0, tr1)"
  then show "internalCheck w c command tr = Some (None, tr1)"
    by (rule internalCheck_ready)
next
  assume "Exec w c [''/bin/sh'', ''-c'', command] tr = Some (Inr 126, tr1)"
  then show "internalCheck w c command tr
          = Some (Some (Errorf ''/bin/sh command not executable''), tr1)"
    by (rule internalCheck_fatal)
next
  assume "Exec w c [''/bin/sh'', ''-c'', command] tr = Some (Inr code, tr1) \<and> code \<noteq> 0 \<and> code \<noteq> 126"
  then show "internalCheck w c command tr = internalCheck w c command tr1"
    using internalCheck_retry by blast
next
  assume a: "(\<forall>code \<in> set codes. code \<noteq> 0 \<and> code \<noteq> 126)
        \<and> execRounds w c command (codes @ [0]) tr = Some tr'"
  then have all: "\<forall>code \<in> set codes. code \<noteq> 0 \<and> code \<noteq> 126"
    and rounds: "execRounds w c command (codes @ [0]) tr = Some tr'" by blast+
  from execRounds_last [OF rounds] obtain tr2 where
    r: "execRounds w c command codes tr = Some tr2"
    and e: "Exec w c [''/bin/sh'', ''-c'', command] tr2 = Some (Inr 0, tr')" by blast
  have "internalCheck w c command tr = internalCheck w c command tr2"
    by (rule internalCheck_rounds [OF r all])
  also have "\<dots> = Some (None, tr')"
    by (rule internalCheck_ready [OF e])
  finally show "internalCheck w c command tr = Some (None, tr')" .
next
  assume a: "(\<forall>code \<in> set codes. code \<noteq> 0 \<and> code \<noteq> 126)
        \<and> execRounds w c command (codes @ [126]) tr = Some tr'"
  then have all: "\<forall>code \<in> set codes. code \<noteq> 0 \<and> code \<noteq> 126"
    and rounds: "execRounds w c command (codes @ [126]) tr = Some tr'" by blast+
  from execRounds_last [OF rounds] obtain tr2 where
    r: "execRounds w c command codes tr = Some tr2"
    and e: "Exec w c [''/bin/sh'', ''-c'', command] tr2 = Some (Inr 126, tr')" by blast
  have "internalCheck w c command tr = internalCheck w c command tr2"
    by (rule internalCheck_rounds [OF r all])
  also have "\<dots> = Some (Some (Errorf ''/bin/sh command not executable''), tr')"
    by (rule internalCheck_fatal [OF e])
  finally show "internalCheck w c command tr
          = Some (Some (Errorf ''/bin/sh command not executable''), tr')" .
qed

text \<open>The exit codes 1, 2, 126 and the exit codes 1, 0.\<close>

lemmas exec_eval = Exec_def execPoll.simps Let_def quiet_eval execsStarted_def

lemma flaky_rounds:
  "execRounds flakyWorld esContainer cmd [1, 2, 126] [] =
     Some [ContainerExecCreate ''c0ffee'' [''/bin/sh'', ''-c'', cmd],
           ContainerExecStart ''exec0'', ContainerExecInspect ''exec0'',
           ContainerExecCreate ''c0ffee'' [''/bin/sh'', ''-c'', cmd],
           ContainerExecStart ''exec0'', ContainerExecInspect ''exec0'',
           ContainerExecCreate ''c0ffee'' [''/bin/sh'', ''-c'', cmd],
           ContainerExecStart ''exec0'', ContainerExecInspect ''exec0'']"
  by (simp add: exec_eval flakyWorld_def)

lemma recovering_rounds:
  "execRounds recoveringWorld esContainer cmd [1, 0] [] =
     Some [ContainerExecCreate ''c0ffee'' [''/bin/sh'', ''-c'', cmd],
           ContainerExecStart ''exec0'', ContainerExecInspect ''exec0'',
           ContainerExecCreate ''c0ffee'' [''/bin/sh'', ''-c'', cmd],
           ContainerExecStart ''exec0'', ContainerExecInspect ''exec0'']"
  by (simp add: exec_eval recoveringWorld_def)

theorem internalCheck_exit_codes_witness:
  "internalCheck flakyWorld esContainer (buildInternalCheckCommand 9200) [] =
     Some (Some (Errorf ''/bin/sh command not executable''),
       [ContainerExecCreate ''c0ffee'' [''/bin/sh'', ''-c'', buildInternalCheckCommand 9200],
        ContainerExecStart ''exec0'', ContainerExecInspect ''exec0'',
        ContainerExecCreate ''c0ffee'' [''/bin/sh'', ''-c'', buildInternalCheckCommand 9200],
        ContainerExecStart ''exec0'', ContainerExecInspect ''exec0'',
        ContainerExecCreate ''c0ffee'' [''/bin/sh'', ''-c'', buildInternalCheckCommand 9200],
        ContainerExecStart ''exec0'', ContainerExecInspect ''exec0''])
   \<and> internalCheck recoveringWorld esContainer (buildInternalCheckCommand 9200) [] =
     Some (None,
       [ContainerExecCreate ''c0ffee'' [''/bin/sh'', ''-c'', buildInternalCheckCommand 9200],
        ContainerExecStart ''exec0'', ContainerExecInspect ''exec0'',
        ContainerExecCreate ''c0ffee'' [''/bin/sh'', ''-c'', buildInternalCheckCommand 9200],
        ContainerExecStart ''exec0'', ContainerExecInspect ''exec0''])"
proof -
  let ?cmd = "buildInternalCheckCommand 9200"
  have retry: "\<forall>code \<in> set [1, 2 :: int]. code \<noteq> 0 \<and> code \<noteq> 126" by simp
  have retry1: "\<forall>code \<in> set [1 :: int]. code \<noteq> 0 \<and> code \<noteq> 126" by simp
  have f: "execRounds flakyWorld esContainer ?cmd ([1, 2] @ [126]) [] = Some
       [ContainerExecCreate ''c0ffee'' [''/bin/sh'', ''-c'', ?cmd],
        ContainerExecStart ''exec0'', ContainerExecInspect ''exec0'',
        ContainerExecCreate ''c0ffee'' [''/bin/sh'', ''-c'', ?cmd],
        ContainerExecStart ''exec0'', ContainerExecInspect ''exec0'',
        ContainerExecCreate ''c0ffee'' [''/bin/sh'', ''-c'', ?cmd],
        ContainerExecStart ''exec0'', ContainerExecInspect ''exec0'']"
    using flaky_rounds [of ?cmd] by simp
  have r: "execRounds recoveringWorld esContainer ?cmd ([1] @ [0]) [] = Some
       [ContainerExecCreate ''c0ffee'' [''/bin/sh'', ''-c'', ?cmd],
        ContainerExecStart ''exec0'', ContainerExecInspect ''exec0'',
        ContainerExecCreate ''c0ffee'' [''/bin/sh'', ''-c'', ?cmd],
        ContainerExecStart ''exec0'', ContainerExecInspect ''exec0'']"
    using recovering_rounds [of ?cmd] by simp
  from internalCheck_exit_codes
         [where w = flakyWorld and c = esContainer and command = ?cmd and tr = "[]"
            and codes = "[1, 2]"] retry f
  have a: "internalCheck flakyWorld esContainer ?cmd [] =
     Some (Some (Errorf ''/bin/sh command not executable''),
       [ContainerExecCreate ''c0ffee'' [''/bin/sh'', ''-c'', ?cmd],
        ContainerExecStart ''exec0'', ContainerExecInspect ''exec0'',
        ContainerExecCreate ''c0ffee'' [''/bin/sh'', ''-c'', ?cmd],
        ContainerExecStart ''exec0'', ContainerExecInspect ''exec0'',
        ContainerExecCreate ''c0ffee'' [''/bin/sh'', ''-c'', ?cmd],
        ContainerExecStart ''exec0'', ContainerExecInspect ''exec0''])"
    by blast
  from internalCheck_exit_codes
         [where w = recoveringWorld and c = esContainer and command = ?cmd and tr = "[]"
            and codes = "[1]"] retry1 r
  have b: "internalCheck recoveringWorld esContainer ?cmd [] =
     Some (None,
       [ContainerExecCreate ''c0ffee'' [''/bin/sh'', ''-c'', ?cmd],
        ContainerExecStart ''exec0'', ContainerExecInspect ''exec0'',
        ContainerExecCreate ''c0ffee'' [''/bin/sh'', ''-c'', ?cmd],
        ContainerExecStart ''exec0'', ContainerExecInspect ''exec0''])"
    by blast
  show ?thesis using a b by blast
qed

subsection \<open>Declared ports the container does not have\<close>

lemma containerPortLoop_skip:
  "\<forall>containerPort \<in> set containerPorts. uint (PrivatePort containerPort) \<noteq> expectPort strategy \<Longrightarrow>
     containerPortLoop w service ip container strategy containerPorts tr = Some (None, tr)"
  by (induction containerPorts) simp_all

text \<open>
  C4, as the code has it. A declared pair of a service and an expected container port that
  no port of the live container matches is passed over: the loop over the ports of the
  container ends without a dial, an exec or an exported variable, without an error, and
  \<^verbatim>\<open>ComposeSetup\<close> goes on with the next declared port.
\<close>

theorem unmatched_port_is_skipped:
  "(\<forall>containerPort \<in> set (Ports container).
       uint (PrivatePort containerPort) \<noteq> expectPort strategy) \<longrightarrow>
     containerPortLoop w service ip container strategy (Ports container) tr = Some (None, tr)
     \<and> portListLoop w service ip container (strategy # portList) tr
         = portListLoop w service ip container portList tr"
  using containerPortLoop_skip [of "Ports container" strategy w service ip container tr]
  by simp

text \<open>The container of the scenario and the expected port 9201.\<close>

theorem unmatched_port_is_skipped_witness:
  "containerPortLoop quietWorld ''es'' ''172.17.0.1'' esContainer
       \<lparr>expectPort = 9201, startupTimeout = 60000000000\<rparr> (Ports esContainer) []
     = Some (None, [])
   \<and> portListLoop quietWorld ''es'' ''172.17.0.1'' esContainer
         [\<lparr>expectPort = 9201, startupTimeout = 60000000000\<rparr>] []
       = Some (None, [])"
  using unmatched_port_is_skipped
          [where container = esContainer
             and strategy = "\<lparr>expectPort = 9201, startupTimeout = 60000000000\<rparr>"
             and w = quietWorld and service = "''es''" and ip = "''172.17.0.1''" and tr = "[]"
             and portList = "[]"]
  by (simp add: esContainer_def)

text \<open>
  Against the sentence of the specification that such a pair aborts the setup with an
  error: the stack declares the port 9201 for the service \<^verbatim>\<open>es\<close>, no port of the
  container has it, and \<^verbatim>\<open>ComposeSetup\<close> returns nil; it has exported
  \<^verbatim>\<open>es_host\<close> and nothing for the port.
\<close>

theorem unmatched_port_no_error:
  "bindWaitPort missingPortWorld esSetup
     = Inr [(''es'', [\<lparr>expectPort = 9201, startupTimeout = 60000000000\<rparr>])]
   \<and> 9201 \<notin> (\<lambda>containerPort. uint (PrivatePort containerPort)) ` set (Ports esContainer)
   \<and> ComposeSetup missingPortWorld esSetup [] =
       Some (None,
         [NewClientWithOpts, Stat ''/.dockerenv'', NetworkList, NetworkList,
          NetworkInspect ''bridge'', NewLocalDockerCompose [''docker-compose.yml''] ''e2e'',
          ComposeInvoke [''up'', ''-d''],
          ContainerList ''e2e_es_1'',
          Setenv ''es_host'' ''172.17.0.1'',
          ContainerInspect ''c0ffee'',
          RunStepsAndWait (Some []) 60 False])"
  by (simp add: compose_eval missingPortWorld_def quiet_eval)

subsection \<open>Failures of the network discovery\<close>

text \<open>
  C6, at two failing inputs. When the daemon cannot list the networks,
  \<^verbatim>\<open>getDefaultNetwork\<close> and \<^verbatim>\<open>getGatewayIP\<close> both return an error, and when
  the network has no gateway \<^verbatim>\<open>getGatewayIP\<close> returns its descriptive error; in both
  cases \<^verbatim>\<open>ComposeSetup\<close> starts the stack all the same, exports the empty string as
  \<^verbatim>\<open>es_host\<close>, dials \<^verbatim>\<open>:32001\<close> and returns nil.
\<close>

theorem network_failure_is_ignored:
  "getDefaultNetwork noNetworkWorld [NewClientWithOpts, Stat ''/.dockerenv'']
     = (Inl (ApiError ''cannot list networks''),
        [NewClientWithOpts, Stat ''/.dockerenv'', NetworkList])
   \<and> getGatewayIP noNetworkWorld [NewClientWithOpts, Stat ''/.dockerenv'', NetworkList]
     = (Inl (ApiError ''network  not found''),
        [NewClientWithOpts, Stat ''/.dockerenv'', NetworkList, NetworkList, NetworkInspect []])
   \<and> ComposeSetup noNetworkWorld esSetup [] =
       Some (None,
         [NewClientWithOpts, Stat ''/.dockerenv'', NetworkList, NetworkList,
          NetworkInspect [], NewLocalDockerCompose [''docker-compose.yml''] ''e2e'',
          ComposeInvoke [''up'', ''-d''],
          ContainerList ''e2e_es_1'',
          Setenv ''es_host'' [],
          ContainerInspect ''c0ffee'', ContainerInspect ''c0ffee'', ContainerInspect ''c0ffee'',
          DialContext '':32001'', ConnClose '':32001'',
          ContainerExecCreate ''c0ffee'' [''/bin/sh'', ''-c'', buildInternalCheckCommand 9200],
          ContainerExecStart ''exec0'', ContainerExecInspect ''exec0'',
          Setenv ''es_9200'' ''32001'',
          RunStepsAndWait (Some []) 60 False])
   \<and> getGatewayIP noGatewayWorld [NewClientWithOpts, Stat ''/.dockerenv'', NetworkList]
     = (Inl (Errorf ''Failed to get gateway IP from network settings''),
        [NewClientWithOpts, Stat ''/.dockerenv'', NetworkList, NetworkList,
         NetworkInspect ''bridge''])
   \<and> ComposeSetup noGatewayWorld esSetup [] =
       Some (None,
         [NewClientWithOpts, Stat ''/.dockerenv'', NetworkList, NetworkList,
          NetworkInspect ''bridge'', NewLocalDockerCompose [''docker-compose.yml''] ''e2e'',
          ComposeInvoke [''up'', ''-d''],
          ContainerList ''e2e_es_1'',
          Setenv ''es_host'' [],
          ContainerInspect ''c0ffee'', ContainerInspect ''c0ffee'', ContainerInspect ''c0ffee'',
          DialContext '':32001'', ConnClose '':32001'',
          ContainerExecCreate ''c0ffee'' [''/bin/sh'', ''-c'', buildInternalCheckCommand 9200],
          ContainerExecStart ''exec0'', ContainerExecInspect ''exec0'',
          Setenv ''es_9200'' ''32001'',
          RunStepsAndWait (Some []) 60 False])"
  by (simp add: compose_eval noNetworkWorld_def noGatewayWorld_def quiet_eval)

subsection \<open>The drain barrier: workers started by the exposures\<close>

lemma spawned_append: "spawned (xs @ ys) = spawned xs + spawned ys"
  by (simp add: spawned_def)

lemma invoke_calls: "calls (invoke c st) = calls st @ [c]"
  and invoke_context: "portForwardContext (invoke c st) = portForwardContext st"
  by (simp_all add: invoke_def)

lemma exportKindEnv_keeps:
  "exportKindEnv kw key val res st = (r, st') \<Longrightarrow>
     spawned (calls st') = spawned (calls st) \<and> portForwardContext st' = portForwardContext st"
  by (auto simp: exportKindEnv_def Let_def invoke_def spawned_def split: option.splits)

lemma exportConverted_keeps:
  "exportConverted kw res p convertedPorts st = (r, st') \<Longrightarrow>
     spawned (calls st') = spawned (calls st) \<and> portForwardContext st' = portForwardContext st"
proof (induction convertedPorts arbitrary: st)
  case Nil
  then show ?case by simp
next
  case (Cons kp convertedPorts)
  show ?case
  proof (cases "uint (Remote p) = realPort kp")
    case False
    with Cons show ?thesis by simp
  next
    case True
    obtain r1 st1 where e: "exportKindEnv kw (portKey res (inputPort kp)) (Itoa (uint (Local p))) res st = (r1, st1)"
      by (cases "exportKindEnv kw (portKey res (inputPort kp)) (Itoa (uint (Local p))) res st")
    note k = exportKindEnv_keeps [OF e]
    show ?thesis
    proof (cases r1)
      case (Some err1)
      with Cons.prems True e k show ?thesis by auto
    next
      case None
      with Cons.prems True e have "exportConverted kw res p convertedPorts st1 = (r, st')" by simp
      from Cons.IH [OF this] k show ?thesis by simp
    qed
  qed
qed

lemma exportForwarded_keeps:
  "exportForwarded kw res exportedPorts convertedPorts st = (r, st') \<Longrightarrow>
     spawned (calls st') = spawned (calls st) \<and> portForwardContext st' = portForwardContext st"
proof (induction exportedPorts arbitrary: st)
  case Nil
  then show ?case by simp
next
  case (Cons p exportedPorts)
  obtain r1 st1 where e: "exportConverted kw res p convertedPorts st = (r1, st1)"
    by (cases "exportConverted kw res p convertedPorts st")
  note k = exportConverted_keeps [OF e]
  show ?case
  proof (cases r1)
    case (Some err1)
    with Cons.prems e k show ?thesis by auto
  next
    case None
    with Cons.prems e have "exportForwarded kw res exportedPorts convertedPorts st1 = (r, st')" by simp
    from Cons.IH [OF this] k show ?thesis by simp
  qed
qed

lemma exposePerKindService_spawns_one:
  assumes "exposePerKindService kw port timeout st = Some (None, st')"
  shows "spawned (calls st') = Suc (spawned (calls st))
         \<and> portForwardContext st' = portForwardContext st"
  using assms
  by (auto simp: exposePerKindService_def Let_def invoke_def spawned_def
      split: sum.splits option.splits forward_start.splits prod.splits
      dest!: exportKindEnv_keeps exportForwarded_keeps)


lemma exposeAll_spawns:
  "exposeAll kw exports waitTimeout st = Some (None, st') \<Longrightarrow>
     spawned (calls st') = spawned (calls st) + length exports
     \<and> portForwardContext st' = portForwardContext st"
proof (induction exports arbitrary: st)
  case Nil
  then show ?case by simp
next
  case (Cons p exports)
  from Cons.prems obtain st1 where
    one: "exposePerKindService kw p waitTimeout st = Some (None, st1)"
    and rest: "exposeAll kw exports waitTimeout st1 = Some (None, st')"
    by (auto split: option.splits prod.splits)
  from exposePerKindService_spawns_one [OF one] Cons.IH [OF rest]
  show ?case by simp
qed

lemma exposeKindService_binds:
  assumes "exposeKindService kw exports timeout kubeConfig st = Some (None, st')"
  shows "spawned (calls st') = spawned (calls st) + length exports
         \<and> portForwardContext st'
             = Some \<lparr>resourceCount = int (length exports), stopChannelCap = 1,
                      resourceFinishedChannelCap = length exports\<rparr>"
  using assms
  by (auto simp: exposeKindService_def Let_def invoke_def spawned_def
      split: sum.splits option.splits prod.splits dest!: exposeAll_spawns)

subsection \<open>The drain barrier: the invariant\<close>

lemma filter_update_same:
  "k < length xs \<Longrightarrow> \<not> P (xs ! k) \<Longrightarrow> \<not> P y \<Longrightarrow>
     length (filter P (xs[k := y])) = length (filter P xs)"
proof (induction xs arbitrary: k)
  case Nil
  then show ?case by simp
next
  case (Cons x xs)
  then show ?case by (cases k) auto
qed

lemma filter_update_more:
  "k < length xs \<Longrightarrow> \<not> P (xs ! k) \<Longrightarrow> P y \<Longrightarrow>
     length (filter P (xs[k := y])) = Suc (length (filter P xs))"
proof (induction xs arbitrary: k)
  case Nil
  then show ?case by simp
next
  case (Cons x xs)
  then show ?case by (cases k) auto
qed

lemma barrier_initial:
  assumes "exposeKindService kw exports timeout kubeConfig st = Some (None, st')"
      and "spawned (calls st) = 0"
  shows "barrier (length exports) (tunnelsOf exports st')"
  using exposeKindService_binds [OF assms(1)] assms(2)
  by (simp add: barrier_def tunnelsOf_def finishedWorkers_def)

lemma barrier_step:
  assumes "barrier n s" and "step e s = Some s'"
  shows "barrier n s'"
proof (cases e)
  case Notify
  show ?thesis
  proof (cases "notify s")
    case Called
    with assms Notify show ?thesis
      by (auto simp: barrier_def finishedWorkers_def split: if_splits)
  next
    case (Waiting i)
    with assms Notify show ?thesis
      by (auto simp: barrier_def finishedWorkers_def split: if_splits)
  next
    case Done
    with assms Notify show ?thesis by simp
  qed
next
  case (Stop k)
  with assms have k: "k < length (workers s)" "workers s ! k = Forwarding"
    and s': "s' = s\<lparr>stopChannel := stopChannel s - 1, workers := (workers s)[k := Returned None]\<rparr>"
    by (auto split: if_splits)
  have "finishedWorkers s' = finishedWorkers s"
    unfolding finishedWorkers_def s' using k by (simp add: filter_update_same)
  with assms(1) s' show ?thesis by (auto simp: barrier_def split: notify_pc.splits)
next
  case (Return k err)
  with assms have k: "k < length (workers s)" "workers s ! k = Forwarding"
    and s': "s' = s\<lparr>workers := (workers s)[k := Returned err]\<rparr>"
    by (auto split: if_splits)
  have "finishedWorkers s' = finishedWorkers s"
    unfolding finishedWorkers_def s' using k by (simp add: filter_update_same)
  with assms(1) s' show ?thesis by (auto simp: barrier_def split: notify_pc.splits)
next
  case (Acknowledge k)
  with assms have k: "k < length (workers s)" "workers s ! k \<noteq> Finished"
    and s': "s' = s\<lparr>resourceFinishedChannel := resourceFinishedChannel s + 1,
                     workers := (workers s)[k := Finished]\<rparr>"
    by (auto split: if_splits)
  have "finishedWorkers s' = Suc (finishedWorkers s)"
    unfolding finishedWorkers_def s' using k by (simp add: filter_update_more)
  with assms(1) s' show ?thesis by (auto simp: barrier_def split: notify_pc.splits)
qed

lemma barrier_steps:
  "barrier n s \<Longrightarrow> steps es s = Some s' \<Longrightarrow> barrier n s'"
proof (induction es arbitrary: s)
  case Nil
  then show ?case by simp
next
  case (Cons e es)
  from Cons.prems(2) obtain s1 where
    one: "step e s = Some s1" and rest: "steps es s1 = Some s'"
    by (auto split: option.splits)
  from Cons.IH [OF barrier_step [OF Cons.prems(1) one] rest] show ?case .
qed

lemma barrier_done:
  assumes "barrier n s" and "notify s = Done"
  shows "stopsSent s = 1 \<and> acknowledged s = n \<and> length (workers s) = n
         \<and> (\<forall>w \<in> set (workers s). w = Finished)"
proof -
  from assms have a: "stopsSent s = 1" "acknowledged s = n" "length (workers s) = n"
    and sum: "acknowledged s + resourceFinishedChannel s = finishedWorkers s"
    by (simp_all add: barrier_def)
  have "finishedWorkers s \<le> length (workers s)"
    by (simp add: finishedWorkers_def)
  with a sum have "length (filter (\<lambda>w. w = Finished) (workers s)) = length (workers s)"
    by (simp add: finishedWorkers_def)
  then have "\<forall>w \<in> set (workers s). w = Finished"
    using length_filter_less [of _ "workers s" "\<lambda>w. w = Finished"] by fastforce
  with a show ?thesis by simp
qed

text \<open>
  What holds if \<^verbatim>\<open>KindCleanNotify\<close> returns. When \<^verbatim>\<open>exposeKindService\<close>
  has succeeded, the bound context has \<open>resourceCount\<close> equal to the number of declared
  exposures, and that is the number of tunnel workers started. In every schedule at whose
  end \<^verbatim>\<open>KindCleanNotify\<close> has returned, it has sent one stop signal and received
  exactly that many acknowledgements, and every worker has ended. This says nothing of the
  schedules in which it does not return; the next two subsections are about them.
\<close>

lemma returned_barrier:
  assumes "exposeKindService kw exports timeout kubeConfig st = Some (None, st')"
      and "spawned (calls st) = 0"
      and "steps schedule (tunnelsOf exports st') = Some s"
      and "notify s = Done"
  shows "(\<exists>ctx. portForwardContext st' = Some ctx \<and> resourceCount ctx = int (length exports))
         \<and> spawned (calls st') = length exports
         \<and> length (workers s) = length exports
         \<and> stopsSent s = 1
         \<and> acknowledged s = length exports
         \<and> (\<forall>w \<in> set (workers s). w = Finished)"
proof -
  note b = exposeKindService_binds [OF assms(1)]
  from barrier_steps [OF barrier_initial [OF assms(1,2)] assms(3)]
  have "barrier (length exports) s" .
  from barrier_done [OF this assms(4)] b assms(2) show ?thesis by simp
qed


text \<open>
  Three exposures, one of whose workers ends with an error and another by itself while
  \<^verbatim>\<open>KindCleanNotify\<close> waits.
\<close>

lemma expose_three:
  "exposeKindService quietCluster threeExports 60 ''/tmp/e2e-k8s.config'' freshState
     = Some (None, threeState)"
  by (simp add: kind_eval threeState_def)

lemma tunnels_three:
  "tunnelsOf threeExports threeState =
     \<lparr>bound = Some \<lparr>resourceCount = 3, stopChannelCap = 1, resourceFinishedChannelCap = 3\<rparr>,
      stopChannel = 0, resourceFinishedChannel = 0, finishedCap = 3,
      workers = [Forwarding, Forwarding, Forwarding],
      notify = Called, stopsSent = 0, acknowledged = 0\<rparr>"
  by (simp add: tunnelsOf_def threeState_def threeExports_def spawned_def numeral_3_eq_3)

lemma schedule_three:
  "steps threeSchedule (tunnelsOf threeExports threeState) = Some threeDone"
  unfolding tunnels_three threeSchedule_def threeDone_def by simp

lemma returned_barrier_three:
  "exposeKindService quietCluster threeExports 60 ''/tmp/e2e-k8s.config'' freshState
     = Some (None, threeState)
   \<and> spawned (calls freshState) = 0
   \<and> steps threeSchedule (tunnelsOf threeExports threeState) = Some threeDone
   \<and> notify threeDone = Done
   \<and> (\<exists>ctx. portForwardContext threeState = Some ctx \<and> resourceCount ctx = 3)
   \<and> spawned (calls threeState) = 3
   \<and> stopsSent threeDone = 1
   \<and> acknowledged threeDone = 3
   \<and> workers threeDone = [Finished, Finished, Finished]"
proof -
  have fresh: "spawned (calls freshState) = 0"
    by (simp add: freshState_def spawned_def)
  have returned: "notify threeDone = Done"
    by (simp add: threeDone_def)
  have three: "length threeExports = 3"
    by (simp add: threeExports_def)
  from returned_barrier [OF expose_three fresh schedule_three returned]
  show ?thesis
    using expose_three fresh schedule_three returned three by (simp add: threeDone_def)
qed

subsection \<open>The drain barrier: what one stop signal reaches\<close>

lemma filter_update_equal:
  "k < length xs \<Longrightarrow> P (xs ! k) = P y \<Longrightarrow>
     length (filter P (xs[k := y])) = length (filter P xs)"
proof (induction xs arbitrary: k)
  case Nil
  then show ?case by simp
next
  case (Cons x xs)
  then show ?case by (cases k) auto
qed

lemma stopped_step:
  assumes "stoppedWorkers s + stopChannel s = stopsSent s"
      and "step e s = Some s'" and "\<not> returnsByItself e"
  shows "stoppedWorkers s' + stopChannel s' = stopsSent s'"
proof (cases e)
  case Notify
  with assms show ?thesis
    by (auto simp: stoppedWorkers_def split: notify_pc.splits option.splits if_splits)
next
  case (Stop k)
  with assms have k: "k < length (workers s)" "workers s ! k = Forwarding" "0 < stopChannel s"
    and s': "s' = s\<lparr>stopChannel := stopChannel s - 1, workers := (workers s)[k := Returned None]\<rparr>"
    by (auto split: if_splits)
  have "stoppedWorkers s' = Suc (stoppedWorkers s)"
    unfolding stoppedWorkers_def s' using k by (simp add: filter_update_more)
  with assms(1) k s' show ?thesis by simp
next
  case (Return k err)
  with assms show ?thesis by simp
next
  case (Acknowledge k)
  with assms have k: "k < length (workers s)" "workers s ! k \<noteq> Forwarding"
    and s': "s' = s\<lparr>resourceFinishedChannel := resourceFinishedChannel s + 1,
                     workers := (workers s)[k := Finished]\<rparr>"
    by (auto split: if_splits)
  have "stoppedWorkers s' = stoppedWorkers s"
    unfolding stoppedWorkers_def s' using k by (simp add: filter_update_equal)
  with assms(1) s' show ?thesis by simp
qed

lemma stopped_steps:
  "stoppedWorkers s + stopChannel s = stopsSent s \<Longrightarrow> steps es s = Some s' \<Longrightarrow>
   \<forall>e \<in> set es. \<not> returnsByItself e \<Longrightarrow>
     stoppedWorkers s' + stopChannel s' = stopsSent s'"
proof (induction es arbitrary: s)
  case Nil
  then show ?case by simp
next
  case (Cons e es)
  from Cons.prems(2) obtain s1 where
    one: "step e s = Some s1" and rest: "steps es s1 = Some s'"
    by (auto split: option.splits)
  from Cons.prems(3) have e: "\<not> returnsByItself e" and es: "\<forall>e \<in> set es. \<not> returnsByItself e"
    by simp_all
  from Cons.IH [OF stopped_step [OF Cons.prems(1) one e] rest es] show ?case .
qed

lemma finished_le_stopped: "finishedWorkers s \<le> stoppedWorkers s"
proof -
  have "length (filter (\<lambda>w. w = Finished) xs) \<le> length (filter (\<lambda>w. w \<noteq> Forwarding) xs)"
    for xs :: "worker list"
    by (induction xs) auto
  then show ?thesis by (simp add: finishedWorkers_def stoppedWorkers_def)
qed

lemma barrier_one_stop: "barrier n s \<Longrightarrow> stopsSent s \<le> 1"
  by (auto simp: barrier_def split: notify_pc.splits)

text \<open>
  One stop signal stops one worker. \<^verbatim>\<open>KindCleanNotify\<close> sends a single value on
  \<^verbatim>\<open>stopChannel\<close>, and a value sent on a channel is received once. In a run in which
  no \<^verbatim>\<open>ForwardPorts\<close> returns by itself at most one worker ever leaves it, so with
  two or more exposures \<^verbatim>\<open>KindCleanNotify\<close> does not return: the barrier is passed
  only when all workers but one end on their own.
\<close>

theorem one_stop_signal_stops_one_worker:
  assumes "exposeKindService kw exports timeout kubeConfig st = Some (None, st')"
      and "spawned (calls st) = 0"
      and "steps schedule (tunnelsOf exports st') = Some s"
      and "\<forall>e \<in> set schedule. \<not> returnsByItself e"
  shows "stoppedWorkers s \<le> 1 \<and> (2 \<le> length exports \<longrightarrow> notify s \<noteq> Done)"
proof -
  have b: "barrier (length exports) s"
    by (rule barrier_steps [OF barrier_initial [OF assms(1,2)] assms(3)])
  have "stoppedWorkers (tunnelsOf exports st') + stopChannel (tunnelsOf exports st')
          = stopsSent (tunnelsOf exports st')"
    by (simp add: tunnelsOf_def stoppedWorkers_def)
  from stopped_steps [OF this assms(3,4)] barrier_one_stop [OF b]
  have one: "stoppedWorkers s \<le> 1" by simp
  have "notify s \<noteq> Done" if n: "2 \<le> length exports"
  proof
    assume "notify s = Done"
    with b have "acknowledged s = length exports"
      and "acknowledged s + resourceFinishedChannel s = finishedWorkers s"
      by (simp_all add: barrier_def)
    with finished_le_stopped [of s] one n show False by simp
  qed
  with one show ?thesis by simp
qed

text \<open>
  Three tunnels: after the stop signal has been taken and acknowledged,
  \<^verbatim>\<open>KindCleanNotify\<close> stands in its loop with one acknowledgement and cannot move.
\<close>

theorem one_stop_signal_stops_one_worker_witness:
  "steps stopOnlySchedule (tunnelsOf threeExports threeState)
     = Some \<lparr>bound = Some \<lparr>resourceCount = 3, stopChannelCap = 1, resourceFinishedChannelCap = 3\<rparr>,
             stopChannel = 0, resourceFinishedChannel = 0, finishedCap = 3,
             workers = [Finished, Forwarding, Forwarding],
             notify = Waiting 1, stopsSent = 1, acknowledged = 1\<rparr>
   \<and> stoppedWorkers
         \<lparr>bound = Some \<lparr>resourceCount = 3, stopChannelCap = 1, resourceFinishedChannelCap = 3\<rparr>,
          stopChannel = 0, resourceFinishedChannel = 0, finishedCap = 3,
          workers = [Finished, Forwarding, Forwarding],
          notify = Waiting 1, stopsSent = 1, acknowledged = 1\<rparr> \<le> 1
   \<and> step Notify
         \<lparr>bound = Some \<lparr>resourceCount = 3, stopChannelCap = 1, resourceFinishedChannelCap = 3\<rparr>,
          stopChannel = 0, resourceFinishedChannel = 0, finishedCap = 3,
          workers = [Finished, Forwarding, Forwarding],
          notify = Waiting 1, stopsSent = 1, acknowledged = 1\<rparr> = None"
proof -
  have fresh: "spawned (calls freshState) = 0"
    by (simp add: freshState_def spawned_def)
  have sched: "steps stopOnlySchedule (tunnelsOf threeExports threeState)
     = Some \<lparr>bound = Some \<lparr>resourceCount = 3, stopChannelCap = 1, resourceFinishedChannelCap = 3\<rparr>,
             stopChannel = 0, resourceFinishedChannel = 0, finishedCap = 3,
             workers = [Finished, Forwarding, Forwarding],
             notify = Waiting 1, stopsSent = 1, acknowledged = 1\<rparr>"
    unfolding tunnels_three stopOnlySchedule_def by simp
  have quiet: "\<forall>e \<in> set stopOnlySchedule. \<not> returnsByItself e"
    by (simp add: stopOnlySchedule_def)
  from one_stop_signal_stops_one_worker [OF expose_three fresh sched quiet]
  show ?thesis using sched by simp
qed

subsection \<open>The drain barrier: teardown while workers are still forwarding\<close>

lemma reached_step:
  assumes "stoppedWorkers s + stopChannel s = stopsSent s + r"
      and "step e s = Some s'"
  shows "stoppedWorkers s' + stopChannel s' = stopsSent s' + r + selfReturns [e]"
proof (cases e)
  case Notify
  with assms show ?thesis
    by (auto simp: stoppedWorkers_def selfReturns_def
             split: notify_pc.splits option.splits if_splits)
next
  case (Stop k)
  with assms have k: "k < length (workers s)" "workers s ! k = Forwarding" "0 < stopChannel s"
    and s': "s' = s\<lparr>stopChannel := stopChannel s - 1, workers := (workers s)[k := Returned None]\<rparr>"
    by (auto split: if_splits)
  have "stoppedWorkers s' = Suc (stoppedWorkers s)"
    unfolding stoppedWorkers_def s' using k by (simp add: filter_update_more)
  with assms(1) k s' Stop show ?thesis by (simp add: selfReturns_def)
next
  case (Return k err)
  with assms have k: "k < length (workers s)" "workers s ! k = Forwarding"
    and s': "s' = s\<lparr>workers := (workers s)[k := Returned err]\<rparr>"
    by (auto split: if_splits)
  have "stoppedWorkers s' = Suc (stoppedWorkers s)"
    unfolding stoppedWorkers_def s' using k by (simp add: filter_update_more)
  with assms(1) s' Return show ?thesis by (simp add: selfReturns_def)
next
  case (Acknowledge k)
  with assms have k: "k < length (workers s)" "workers s ! k \<noteq> Forwarding"
    and s': "s' = s\<lparr>resourceFinishedChannel := resourceFinishedChannel s + 1,
                     workers := (workers s)[k := Finished]\<rparr>"
    by (auto split: if_splits)
  have "stoppedWorkers s' = stoppedWorkers s"
    unfolding stoppedWorkers_def s' using k by (simp add: filter_update_equal)
  with assms(1) s' Acknowledge show ?thesis by (simp add: selfReturns_def)
qed

lemma reached_steps:
  "stoppedWorkers s + stopChannel s = stopsSent s + r \<Longrightarrow> steps es s = Some s' \<Longrightarrow>
     stoppedWorkers s' + stopChannel s' = stopsSent s' + r + selfReturns es"
proof (induction es arbitrary: s r)
  case Nil
  then show ?case by (simp add: selfReturns_def)
next
  case (Cons e es)
  from Cons.prems(2) obtain s1 where
    one: "step e s = Some s1" and rest: "steps es s1 = Some s'"
    by (auto split: option.splits)
  from reached_step [OF Cons.prems(1) one]
  have "stoppedWorkers s1 + stopChannel s1 = stopsSent s1 + (r + selfReturns [e])"
    by simp
  from Cons.IH [OF this rest]
  show ?case by (simp add: selfReturns_def)
qed

lemma acknowledged_le_stopped:
  "barrier n s \<Longrightarrow> acknowledged s \<le> stoppedWorkers s"
  using finished_le_stopped [of s] by (simp add: barrier_def)

text \<open>
  C1, where the code leaves the barrier of the specification. \<^verbatim>\<open>KindCleanNotify\<close>
  sends one value on \<^verbatim>\<open>stopChannel\<close>, the channel all workers share, and a value
  sent on a channel is received once: the stop signal ends one worker, and every other
  worker ends only when its \<^verbatim>\<open>ForwardPorts\<close> returns by itself. So in every
  schedule after a successful \<^verbatim>\<open>exposeKindService\<close> the workers that have left
  \<^verbatim>\<open>ForwardPorts\<close>, and the acknowledgements \<^verbatim>\<open>KindCleanNotify\<close> has
  received, are at most one more than the workers that returned by themselves; and when
  fewer than \<open>N - 1\<close> of the \<open>N\<close> workers do, \<^verbatim>\<open>KindCleanNotify\<close> has not returned:
  it stands in the loop under the comment \<^verbatim>\<open>wait all stopped\<close> with fewer than
  \<open>N\<close> acknowledgements. Teardown observes the \<open>N\<close> acknowledgements of the
  specification only when \<open>N - 1\<close> workers end on their own.
\<close>

theorem KindCleanNotify_stops_one_worker:
  assumes "exposeKindService kw exports timeout kubeConfig st = Some (None, st')"
      and "spawned (calls st) = 0"
      and "steps schedule (tunnelsOf exports st') = Some s"
  shows "length (workers s) = length exports
         \<and> stopsSent s \<le> 1
         \<and> stoppedWorkers s + stopChannel s = stopsSent s + selfReturns schedule
         \<and> acknowledged s \<le> 1 + selfReturns schedule
         \<and> (selfReturns schedule + 2 \<le> length exports \<longrightarrow>
              notify s \<noteq> Done \<and> acknowledged s < length exports)"
proof -
  have b: "barrier (length exports) s"
    by (rule barrier_steps [OF barrier_initial [OF assms(1,2)] assms(3)])
  have "stoppedWorkers (tunnelsOf exports st') + stopChannel (tunnelsOf exports st')
          = stopsSent (tunnelsOf exports st') + 0"
    by (simp add: tunnelsOf_def stoppedWorkers_def)
  from reached_steps [OF this assms(3)]
  have count: "stoppedWorkers s + stopChannel s = stopsSent s + selfReturns schedule"
    by simp
  note one = barrier_one_stop [OF b]
  from acknowledged_le_stopped [OF b] count one
  have ack: "acknowledged s \<le> 1 + selfReturns schedule"
    by simp
  have len: "length (workers s) = length exports"
    using b by (simp add: barrier_def)
  have "notify s \<noteq> Done \<and> acknowledged s < length exports"
    if few: "selfReturns schedule + 2 \<le> length exports"
  proof
    show "notify s \<noteq> Done"
    proof
      assume "notify s = Done"
      with b have "acknowledged s = length exports"
        by (simp add: barrier_def)
      with ack few show False by simp
    qed
    from ack few show "acknowledged s < length exports" by simp
  qed
  with len one count ack show ?thesis by simp
qed

text \<open>
  Three tunnels, teardown notified, and the first worker ends with an error:
  \<^verbatim>\<open>KindCleanNotify\<close> has received two acknowledgements, not three, and has not
  returned. It cannot move, for \<^verbatim>\<open>resourceFinishedChannel\<close> is empty, and the third
  worker can neither take a stop signal, for \<^verbatim>\<open>stopChannel\<close> is empty, nor
  acknowledge, for it is still inside \<^verbatim>\<open>ForwardPorts\<close>.
\<close>

theorem KindCleanNotify_stops_one_worker_witness:
  "exposeKindService quietCluster threeExports 60 ''/tmp/e2e-k8s.config'' freshState
     = Some (None, threeState)
   \<and> spawned (calls freshState) = 0
   \<and> steps oneErrorSchedule (tunnelsOf threeExports threeState) = Some threeHung
   \<and> selfReturns oneErrorSchedule = 1
   \<and> length threeExports = 3
   \<and> workers threeHung = [Finished, Finished, Forwarding]
   \<and> stopsSent threeHung = 1
   \<and> stopChannel threeHung = 0
   \<and> stoppedWorkers threeHung = 2
   \<and> acknowledged threeHung = 2
   \<and> notify threeHung = Waiting 2
   \<and> notify threeHung \<noteq> Done
   \<and> step Notify threeHung = None
   \<and> step (Stop (Suc (Suc 0))) threeHung = None
   \<and> step (Acknowledge (Suc (Suc 0))) threeHung = None"
proof -
  have fresh: "spawned (calls freshState) = 0"
    by (simp add: freshState_def spawned_def)
  have sched: "steps oneErrorSchedule (tunnelsOf threeExports threeState) = Some threeHung"
    unfolding tunnels_three oneErrorSchedule_def threeHung_def by simp
  have returns: "selfReturns oneErrorSchedule = 1"
    by (simp add: selfReturns_def oneErrorSchedule_def)
  have three: "length threeExports = 3"
    by (simp add: threeExports_def)
  have stuck: "step Notify threeHung = None"
    "step (Stop (Suc (Suc 0))) threeHung = None"
    "step (Acknowledge (Suc (Suc 0))) threeHung = None"
    by (simp_all add: threeHung_def)
  from KindCleanNotify_stops_one_worker [OF expose_three fresh sched]
  show ?thesis
    using expose_three fresh sched returns three stuck
    by (simp add: threeHung_def stoppedWorkers_def)
qed

end
